theory Spec2Isabelle
  imports Complex_Main
begin

section \<open>Strings and values of the build script\<close>

text \<open>
  A JavaScript string is a arrayLiteral of UTF-16 code units. The address data is Japanese, so
  a string is modelled as the list of its code units, each a natural number; every
  character the script names lies in the Basic Multilingual Plane and is one unit.
  \<open>ascii\<close> embeds the ASCII literals of the script.
\<close>

type_synonym jstring = "nat list"

definition ascii :: "string \<Rightarrow> jstring" where
  "ascii s = map of_char s"

text \<open>
  An element of a record array: a string, a number (the coordinates; \<open>NaN\<close> and the
  infinities are not represented) or \<open>undefined\<close>.
\<close>

datatype jsval = Undefined | Str jstring | Num real

datatype error = TypeError

text \<open>\<open>String.prototype.replace\<close> with a string pattern replaces the first occurrence
  only. None of the replacement strings of the script contains a dollar sign.\<close>

fun replace_first :: "jstring \<Rightarrow> jstring \<Rightarrow> jstring \<Rightarrow> jstring" where
  "replace_first pat rep [] = (if pat = [] then rep else [])"
| "replace_first pat rep (c # cs) =
     (if take (length pat) (c # cs) = pat then rep @ drop (length pat) (c # cs)
      else c # replace_first pat rep cs)"


text \<open>The regular-expression class \<open>\d\<close> is the ASCII digits.\<close>

definition isDigit :: "nat \<Rightarrow> bool" where
  "isDigit c = (48 \<le> c \<and> c \<le> 57)"

text \<open>The line terminators of ECMAScript (LF, CR, U+2028, U+2029); the dot of a regular
  expression matches every code unit but these.\<close>

definition isLineTerminator :: "nat \<Rightarrow> bool" where
  "isLineTerminator c = (c = 10 \<or> c = 13 \<or> c = 8232 \<or> c = 8233)"

text \<open>
  What \<open>String.prototype.trim\<close> strips: the ECMAScript white space (TAB, VT, FF, SP,
  NBSP U+00A0, U+1680, U+2000..U+200A, U+202F, U+205F, the ideographic space U+3000, the
  byte order mark U+FEFF) and the line terminators.
\<close>

definition isTrimmed :: "nat \<Rightarrow> bool" where
  "isTrimmed c =
     (c = 9 \<or> c = 11 \<or> c = 12 \<or> c = 32 \<or> c = 160 \<or> c = 5760 \<or> (8192 \<le> c \<and> c \<le> 8202)
      \<or> c = 8239 \<or> c = 8287 \<or> c = 12288 \<or> c = 65279 \<or> isLineTerminator c)"

definition trim :: "jstring \<Rightarrow> jstring" where
  "trim s = rev (dropWhile isTrimmed (rev (dropWhile isTrimmed s)))"

text \<open>The white space of the ASCII range: TAB, LF, VT, FF, CR and SP.\<close>

definition isAsciiSpace :: "nat \<Rightarrow> bool" where
  "isAsciiSpace c = (c = 9 \<or> c = 10 \<or> c = 11 \<or> c = 12 \<or> c = 13 \<or> c = 32)"

text \<open>Decimal notation of a natural number, as \<open>Number.prototype.toString\<close> prints a
  non-negative integer.\<close>

fun showNat :: "nat \<Rightarrow> jstring" where
  "showNat n = (if n < 10 then [48 + n] else showNat (n div 10) @ [48 + n mod 10])"

declare showNat.simps [simp del]

section \<open>Text normalisation\<close>

text \<open>\<open>removeUnnecessarySpace\<close>: \<open>text.replace(p, '').trim()\<close>, where the pattern \<open>p\<close> is
  the string of the single character U+3000, the ideographic (full-width) space.\<close>

definition removeUnnecessarySpace :: "jstring \<Rightarrow> jstring" where
  "removeUnnecessarySpace text = trim (replace_first [12288] [] text)"

text \<open>
  \<open>han2zenMap\<close>, in the order of the object literal: the 28 two-unit keys (a half-width
  kana followed by U+FF9E or U+FF9F) come first, then the one-unit keys.
\<close>

definition han2zenMap :: "(jstring \<times> nat) list" where
  "han2zenMap =
    [([65398, 65438], 12460), ([65399, 65438], 12462), ([65400, 65438], 12464),
     ([65401, 65438], 12466), ([65402, 65438], 12468), ([65403, 65438], 12470),
     ([65404, 65438], 12472), ([65405, 65438], 12474), ([65406, 65438], 12476),
     ([65407, 65438], 12478), ([65408, 65438], 12480), ([65409, 65438], 12482),
     ([65410, 65438], 12485), ([65411, 65438], 12487), ([65412, 65438], 12489),
     ([65418, 65438], 12496), ([65419, 65438], 12499), ([65420, 65438], 12502),
     ([65421, 65438], 12505), ([65422, 65438], 12508), ([65418, 65439], 12497),
     ([65419, 65439], 12500), ([65420, 65439], 12503), ([65421, 65439], 12506),
     ([65422, 65439], 12509), ([65395, 65438], 12532), ([65436, 65438], 12535),
     ([65382, 65438], 12538), ([65393], 12450), ([65394], 12452), ([65395], 12454),
     ([65396], 12456), ([65397], 12458), ([65398], 12459), ([65399], 12461), ([65400], 12463),
     ([65401], 12465), ([65402], 12467), ([65403], 12469), ([65404], 12471), ([65405], 12473),
     ([65406], 12475), ([65407], 12477), ([65408], 12479), ([65409], 12481), ([65410], 12484),
     ([65411], 12486), ([65412], 12488), ([65413], 12490), ([65414], 12491), ([65415], 12492),
     ([65416], 12493), ([65417], 12494), ([65418], 12495), ([65419], 12498), ([65420], 12501),
     ([65421], 12504), ([65422], 12507), ([65423], 12510), ([65424], 12511), ([65425], 12512),
     ([65426], 12513), ([65427], 12514), ([65428], 12516), ([65429], 12518), ([65430], 12520),
     ([65431], 12521), ([65432], 12522), ([65433], 12523), ([65434], 12524), ([65435], 12525),
     ([65436], 12527), ([65382], 12530), ([65437], 12531), ([65383], 12449), ([65384], 12451),
     ([65385], 12453), ([65386], 12455), ([65387], 12457), ([65391], 12483), ([65388], 12515),
     ([65389], 12517), ([65390], 12519), ([65377], 12290), ([65380], 12289), ([65392], 12540),
     ([65378], 12300), ([65379], 12301), ([65381], 12539)]"

text \<open>
  \<open>han2zen\<close>: a global replace with the alternation of all keys. At each position the
  alternatives are tried in the order of the table, so a two-unit key is taken before a
  one-unit key; the scan goes on after the replaced units.
\<close>

fun han2zen :: "jstring \<Rightarrow> jstring" where
  "han2zen [] = []"
| "han2zen [c] = (case map_of han2zenMap [c] of Some z \<Rightarrow> [z] | None \<Rightarrow> [c])"
| "han2zen (c # d # cs) =
     (case map_of han2zenMap [c, d] of
        Some z \<Rightarrow> z # han2zen cs
      | None \<Rightarrow>
          (case map_of han2zenMap [c] of
             Some z \<Rightarrow> z # han2zen (d # cs)
           | None \<Rightarrow> c # han2zen (d # cs)))"

text \<open>
  \<open>GET_CHOME_NUMBER_REGEX\<close>: an optional kanji digit two to nine, an optional ten
  (U+5341), an optional kanji digit one to nine, captured as group 1; then U+4E01, an
  optional U+76EE and the end of the string.
\<close>

definition kanji2to9 :: "nat list" where
  "kanji2to9 = [20108, 19977, 22235, 20116, 20845, 19971, 20843, 20061]"

definition kanji1to9 :: "nat list" where
  "kanji1to9 = 19968 # kanji2to9"

definition chomeGroup :: "jstring \<Rightarrow> bool" where
  "chomeGroup g =
     (let g1 = (if g \<noteq> [] \<and> hd g \<in> set kanji2to9 then tl g else g);
          g2 = (if g1 \<noteq> [] \<and> hd g1 = 21313 then tl g1 else g1);
          g3 = (if g2 \<noteq> [] \<and> hd g2 \<in> set kanji1to9 then tl g2 else g2)
      in g3 = [])"

text \<open>A match that starts at the head of \<open>s\<close> and reaches its end; the result is group 1.\<close>

definition chomeMatchHere :: "jstring \<Rightarrow> jstring option" where
  "chomeMatchHere s =
     (let b = (if s \<noteq> [] \<and> last s = 30446 then butlast s else s)
      in if b \<noteq> [] \<and> last b = 19969 \<and> chomeGroup (butlast b) then Some (butlast b) else None)"

text \<open>\<open>text.match\<close> takes the leftmost start position at which the expression matches.\<close>

fun chomeMatch :: "jstring \<Rightarrow> jstring option" where
  "chomeMatch [] = None"
| "chomeMatch (c # cs) =
     (case chomeMatchHere (c # cs) of Some g \<Rightarrow> Some g | None \<Rightarrow> chomeMatch cs)"

text \<open>
  \<open>getChomeNumber\<close>. The converter \<open>kanji2number\<close> belongs to the package
  @geolonia/japanese-numeral and is the parameter \<open>k2n\<close> here; it yields a number, which
  the concatenation with \<open>suffix\<close> prints in decimal. An empty group 1 is falsy.
\<close>

definition getChomeNumber :: "(jstring \<Rightarrow> nat) \<Rightarrow> jstring \<Rightarrow> jstring \<Rightarrow> jstring" where
  "getChomeNumber k2n text suffix =
     (case chomeMatch text of
        Some g \<Rightarrow> if g \<noteq> [] then showNat (k2n g) @ suffix else []
      | None \<Rightarrow> [])"

text \<open>
  \<open>removeStringEnclosedInParentheses\<close>: the first match of \<open>\(.+\)$\<close> is deleted. A
  match starts at the leftmost opening parenthesis that is followed by at least one unit,
  none of them a line terminator, and by a closing parenthesis at the end of the string.
\<close>

definition parenTail :: "jstring \<Rightarrow> bool" where
  "parenTail cs = (2 \<le> length cs \<and> last cs = 41 \<and> (\<forall>x \<in> set (butlast cs). \<not> isLineTerminator x))"

fun removeStringEnclosedInParentheses :: "jstring \<Rightarrow> jstring" where
  "removeStringEnclosedInParentheses [] = []"
| "removeStringEnclosedInParentheses (c # cs) =
     (if c = 40 \<and> parenTail cs then [] else c # removeStringEnclosedInParentheses cs)"


section \<open>Tables and rows\<close>

text \<open>\<open>isjRenames\<close>: prefecture, original city name, renamed city name.\<close>

definition isjRenames :: "(jstring \<times> jstring \<times> jstring) list" where
  "isjRenames =
    [([20853, 24235, 30476], [31712, 23665, 24066], [20025, 27874, 31712, 23665, 24066]),
     ([31119, 23713, 30476], [31569, 32043, 37089, 37027, 29634, 24029, 30010],
      [37027, 29634, 24029, 24066])]"

text \<open>The city name of a row after \<open>isjRenames.find\<close>: the renamed name of the first entry
  whose prefecture and original name both equal the row's, the row's own name otherwise.\<close>

definition renamedCity :: "jstring \<Rightarrow> jstring \<Rightarrow> jstring" where
  "renamedCity pref city =
     (case find (\<lambda>(p, orig, renamed). p = pref \<and> orig = city) isjRenames of
        Some (p, orig, renamed) \<Rightarrow> renamed
      | None \<Rightarrow> city)"

definition prefNames :: "jstring list" where
  "prefNames =
    [[21271, 28023, 36947], [38738, 26862, 30476], [23721, 25163, 30476],
     [23470, 22478, 30476], [31179, 30000, 30476], [23665, 24418, 30476],
     [31119, 23798, 30476], [33576, 22478, 30476], [26627, 26408, 30476],
     [32676, 39340, 30476], [22524, 29577, 30476], [21315, 33865, 30476],
     [26481, 20140, 37117], [31070, 22856, 24029, 30476], [26032, 28511, 30476],
     [23500, 23665, 30476], [30707, 24029, 30476], [31119, 20117, 30476],
     [23665, 26792, 30476], [38263, 37326, 30476], [23696, 38428, 30476],
     [38745, 23713, 30476], [24859, 30693, 30476], [19977, 37325, 30476],
     [28363, 36032, 30476], [20140, 37117, 24220], [22823, 38442, 24220],
     [20853, 24235, 30476], [22856, 33391, 30476], [21644, 27468, 23665, 30476],
     [40165, 21462, 30476], [23798, 26681, 30476], [23713, 23665, 30476],
     [24195, 23798, 30476], [23665, 21475, 30476], [24499, 23798, 30476],
     [39321, 24029, 30476], [24859, 23195, 30476], [39640, 30693, 30476],
     [31119, 23713, 30476], [20304, 36032, 30476], [38263, 23822, 30476],
     [29066, 26412, 30476], [22823, 20998, 30476], [23470, 23822, 30476],
     [40575, 20816, 23798, 30476], [27798, 32260, 30476]]"

text \<open>\<open>toPrefCode\<close>: the decimal notation of the prefecture number, with a leading zero
  below ten.\<close>

definition toPrefCode :: "nat \<Rightarrow> jstring" where
  "toPrefCode prefNumber = (if prefNumber < 10 then 48 # showNat prefNumber else showNat prefNumber)"

text \<open>
  A row of the kana postal dictionary (\<open>downloadPostalCodeKana\<close>) with the columns the
  script reads: the national local-government code, the postal code, the kana readings of
  prefecture, city and town, and the three names. All columns are strings.
\<close>

record kana_item =
  k_lgcode :: jstring
  k_postal :: jstring
  k_prefKana :: jstring
  k_cityKana :: jstring
  k_townKana :: jstring
  k_pref :: jstring
  k_city :: jstring
  k_town :: jstring

text \<open>A row of the romaji postal dictionary (\<open>downloadPostalCodeRome\<close>).\<close>

record rome_item =
  r_postal :: jstring
  r_pref :: jstring
  r_city :: jstring
  r_town :: jstring
  r_prefRome :: jstring
  r_cityRome :: jstring
  r_townRome :: jstring

text \<open>
  A row of the district-level file: prefecture name, city name, town name, city code, and
  the latitude and longitude after \<open>Number(...)\<close>.
\<close>

record oaza_line =
  o_pref :: jstring
  o_city :: jstring
  o_town :: jstring
  o_cityCode :: jstring
  o_lat :: real
  o_lng :: real

text \<open>
  A row of the block-level file: prefecture name, city name, town name, sub-district name
  (the text \<open>NULL\<close> when absent), residential-display flag, block number, latitude and
  longitude after \<open>Number(...)\<close>.
\<close>

record gaiku_line =
  g_pref :: jstring
  g_city :: jstring
  g_town :: jstring
  g_koaza :: jstring
  g_flag :: jstring
  g_num :: jstring
  g_lat :: real
  g_lng :: real

text \<open>
  The functions the script requires from \<open>../lib\<close> and from
  @geolonia/japanese-numeral are parameters of the model: the record key builder (its
  fourth argument is optional), the dictionary lookup \<open>getPostalKanaOrRomeItems\<close> at its
  two uses (kind \<open>kana\<close> and kind \<open>rome\<close>; \<open>None\<close> is \<open>undefined\<close>), and the numeral
  converter.
\<close>

record 'k lib =
  createRecordKey :: "jstring \<Rightarrow> jstring \<Rightarrow> jstring \<Rightarrow> jstring option \<Rightarrow> 'k"
  lookupKana :: "jstring \<Rightarrow> jstring \<Rightarrow> jstring \<Rightarrow> kana_item list \<Rightarrow> kana_item option"
  lookupRome :: "jstring \<Rightarrow> jstring \<Rightarrow> jstring \<Rightarrow> rome_item list \<Rightarrow> rome_item option"
  kanji2number :: "jstring \<Rightarrow> nat"

text \<open>The record map of a prefecture: an object whose values are record arrays, kept in
  insertion order as \<open>Object.values\<close> lists them. An array is truthy.\<close>

type_synonym 'k records = "('k \<times> jsval list) list"


section \<open>Building a record array\<close>

text \<open>
  The elements of an array literal are evaluated from left to right; the first element
  that throws aborts the literal. \<open>propertyOf\<close> is an unguarded property read
  \<open>item['column']\<close>, which throws a TypeError on \<open>undefined\<close>; \<open>propertyOrEmpty\<close> is
  \<open>item ? f(item) : ''\<close>.
\<close>

fun arrayLiteral :: "(error + 'a) list \<Rightarrow> error + 'a list" where
  "arrayLiteral [] = Inr []"
| "arrayLiteral (x # xs) =
     (case x of
        Inl e \<Rightarrow> Inl e
      | Inr v \<Rightarrow> (case arrayLiteral xs of Inl e \<Rightarrow> Inl e | Inr vs \<Rightarrow> Inr (v # vs)))"

definition propertyOf :: "'i option \<Rightarrow> ('i \<Rightarrow> jstring) \<Rightarrow> error + jsval" where
  "propertyOf item f = (case item of None \<Rightarrow> Inl TypeError | Some i \<Rightarrow> Inr (Str (f i)))"

definition propertyOrEmpty :: "'i option \<Rightarrow> ('i \<Rightarrow> jstring) \<Rightarrow> error + jsval" where
  "propertyOrEmpty item f = (case item of None \<Rightarrow> Inr (Str []) | Some i \<Rightarrow> Inr (Str (f i)))"

text \<open>The text appended to a town reading: a space and the chome number when
  \<open>getChomeNumber\<close> is not the empty string, nothing otherwise.\<close>

definition chomeSuffix :: "(jstring \<Rightarrow> nat) \<Rightarrow> jstring \<Rightarrow> jstring" where
  "chomeSuffix k2n text =
     (if getChomeNumber k2n text [] \<noteq> [] then 32 # getChomeNumber k2n text [] else [])"

section \<open>The district-level pass\<close>

definition oazaKey :: "'k lib \<Rightarrow> oaza_line \<Rightarrow> 'k" where
  "oazaKey L line =
     createRecordKey L (o_pref line) (renamedCity (o_pref line) (o_city line))
       (removeUnnecessarySpace (o_town line)) None"

text \<open>The array literal \<open>record\<close> of \<open>getOazaAddressItems\<close>. The chome number is taken from
  the town column as it stands in the row, not from the normalised town name.\<close>

definition oazaRecord ::
  "'k lib \<Rightarrow> jstring \<Rightarrow> kana_item list \<Rightarrow> rome_item list \<Rightarrow> oaza_line \<Rightarrow> error + jsval list" where
  "oazaRecord L prefCode postalCodeKanaItems postalCodeRomeItems line =
     (let cityName = renamedCity (o_pref line) (o_city line);
          townName = removeUnnecessarySpace (o_town line);
          postalCodeKanaItem = lookupKana L (o_pref line) cityName townName postalCodeKanaItems;
          postalCodeRomeItem = lookupRome L (o_pref line) cityName townName postalCodeRomeItems
      in arrayLiteral
        [Inr (Str prefCode),
         propertyOf postalCodeKanaItem k_postal,
         Inr (Str (o_pref line)),
         propertyOrEmpty postalCodeKanaItem (\<lambda>i. han2zen (k_prefKana i)),
         propertyOrEmpty postalCodeRomeItem r_prefRome,
         Inr (Str (o_cityCode line)),
         Inr (Str cityName),
         propertyOrEmpty postalCodeKanaItem (\<lambda>i. han2zen (k_cityKana i)),
         propertyOrEmpty postalCodeRomeItem r_cityRome,
         Inr (Str townName),
         propertyOrEmpty postalCodeKanaItem
           (\<lambda>i. han2zen (removeStringEnclosedInParentheses (k_townKana i))
                 @ chomeSuffix (kanji2number L) (o_town line)),
         propertyOrEmpty postalCodeRomeItem
           (\<lambda>i. removeStringEnclosedInParentheses (r_townRome i)
                 @ chomeSuffix (kanji2number L) (o_town line)),
         Inr (Str []),
         Inr (Num (o_lat line)),
         Inr (Num (o_lng line))])"

text \<open>
  The loop over the rows. The two lookups come before the duplicate check, but they do
  not throw; a row whose key is already in the map is skipped before the array literal is
  evaluated. A new key is appended to the map.
\<close>

fun oazaLoop ::
  "'k lib \<Rightarrow> jstring \<Rightarrow> kana_item list \<Rightarrow> rome_item list \<Rightarrow> 'k records \<Rightarrow> oaza_line list
     \<Rightarrow> error + 'k records" where
  "oazaLoop L prefCode ks rs records [] = Inr records"
| "oazaLoop L prefCode ks rs records (line # rest) =
     (if map_of records (oazaKey L line) \<noteq> None then oazaLoop L prefCode ks rs records rest
      else (case oazaRecord L prefCode ks rs line of
              Inl e \<Rightarrow> Inl e
            | Inr record \<Rightarrow>
                oazaLoop L prefCode ks rs (records @ [(oazaKey L line, record)]) rest))"

text \<open>\<open>getOazaAddressItems\<close>: the map starts as \<open>patchData[prefCode] || {}\<close>; \<open>data\<close> is the
  parsed district-level file of the prefecture.\<close>

definition getOazaAddressItems ::
  "'k lib \<Rightarrow> jstring \<Rightarrow> kana_item list \<Rightarrow> rome_item list \<Rightarrow> (jstring \<rightharpoonup> 'k records)
     \<Rightarrow> oaza_line list \<Rightarrow> error + 'k records" where
  "getOazaAddressItems L prefCode postalCodeKanaItems postalCodeRomeItems patchData data =
     oazaLoop L prefCode postalCodeKanaItems postalCodeRomeItems
       (case patchData prefCode of Some records \<Rightarrow> records | None \<Rightarrow> []) data"

section \<open>Coordinate samples\<close>

text \<open>A sample is a pair of longitude and latitude. \<open>coords\<close> is the object declared at
  the top level of the script: a key maps to the array of its samples.\<close>

type_synonym sample = "real \<times> real"

type_synonym 'k coords = "'k \<rightharpoonup> sample list"

definition addToCoords :: "'k coords \<Rightarrow> 'k \<Rightarrow> real \<Rightarrow> real \<Rightarrow> 'k coords" where
  "addToCoords coords recordKey lng lat =
     (case coords recordKey of
        None \<Rightarrow> coords(recordKey \<mapsto> [(lng, lat)])
      | Some arr \<Rightarrow> coords(recordKey \<mapsto> arr @ [(lng, lat)]))"

text \<open>
  Modelled from the spec: \<open>turfCenter\<close> (package @turf/center, not under src/), the
  geometric centre of the axis-aligned bounding box of the samples.
\<close>

definition turfCenter :: "sample list \<Rightarrow> sample" where
  "turfCenter arr =
     (let xs = map fst arr; ys = map snd arr
      in ((fold min xs (hd xs) + fold max xs (hd xs)) / 2,
          (fold min ys (hd ys) + fold max ys (hd ys)) / 2))"

text \<open>
  Modelled from the spec: the distance of \<open>turfNearestPoint\<close> (package
  @turf/nearest-point, not under src/), which the spec takes as Euclidean in
  longitude/latitude space. \<open>euclid2\<close> is its square; comparing squares compares
  distances.
\<close>

definition euclid2 :: "sample \<Rightarrow> sample \<Rightarrow> real" where
  "euclid2 c p = (fst c - fst p)\<^sup>2 + (snd c - snd p)\<^sup>2"

text \<open>
  Modelled from the spec: \<open>turfNearestPoint\<close>, the sample closest to the target; among
  equally close samples the first one is kept.
\<close>

fun turfNearestPoint :: "sample \<Rightarrow> sample list \<Rightarrow> sample option" where
  "turfNearestPoint c [] = None"
| "turfNearestPoint c (p # ps) =
     Some (fold (\<lambda>q best. if euclid2 c q < euclid2 c best then q else best) ps p)"

text \<open>\<open>getCenter\<close>: \<open>arr.map\<close> throws when the key has no samples.\<close>

definition getCenter :: "'k coords \<Rightarrow> 'k \<Rightarrow> error + sample" where
  "getCenter coords recordKey =
     (case coords recordKey of
        None \<Rightarrow> Inl TypeError
      | Some arr \<Rightarrow>
          (case turfNearestPoint (turfCenter arr) arr of
             None \<Rightarrow> Inl TypeError
           | Some p \<Rightarrow> Inr p))"


section \<open>The block-level pass\<close>

text \<open>The sub-district name of a row: the text \<open>NULL\<close> stands for the empty string.\<close>

definition koazaOf :: "gaiku_line \<Rightarrow> jstring" where
  "koazaOf line = (if g_koaza line = ascii ''NULL'' then [] else g_koaza line)"

definition gaikuKey :: "'k lib \<Rightarrow> gaiku_line \<Rightarrow> 'k" where
  "gaikuKey L line =
     createRecordKey L (g_pref line) (renamedCity (g_pref line) (g_city line))
       (removeUnnecessarySpace (g_town line)) (Some (koazaOf line))"

text \<open>
  The first loop of \<open>getGaikuAddressItems\<close>: every row adds its sample to \<open>coords\<close>; a row
  whose flag is the text \<open>1\<close> also adds a block point to \<open>gaikuRecords\<close>.
\<close>

fun gaikuSamples ::
  "'k lib \<Rightarrow> 'k coords \<Rightarrow> jsval list list \<Rightarrow> gaiku_line list \<Rightarrow> 'k coords \<times> jsval list list" where
  "gaikuSamples L coords gaikuRecords [] = (coords, gaikuRecords)"
| "gaikuSamples L coords gaikuRecords (line # rest) =
     gaikuSamples L (addToCoords coords (gaikuKey L line) (g_lng line) (g_lat line))
       (if g_flag line = ascii ''1''
        then gaikuRecords @
          [[Str (g_pref line), Str (renamedCity (g_pref line) (g_city line)), Str (g_town line),
            Str (g_num line), Num (g_lng line), Num (g_lat line)]]
        else gaikuRecords)
       rest"

text \<open>
  The array literal \<open>record\<close> of \<open>getGaikuAddressItems\<close>, after \<open>getCenter\<close>. The chome
  number is taken from the normalised town name here.
\<close>

definition gaikuRecord ::
  "'k lib \<Rightarrow> jstring \<Rightarrow> kana_item list \<Rightarrow> rome_item list \<Rightarrow> 'k coords \<Rightarrow> gaiku_line
     \<Rightarrow> error + jsval list" where
  "gaikuRecord L prefCode postalCodeKanaItems postalCodeRomeItems coords line =
     (let cityName = renamedCity (g_pref line) (g_city line);
          townName = removeUnnecessarySpace (g_town line);
          koazaName = koazaOf line;
          postalCodeKanaItem = lookupKana L (g_pref line) cityName townName postalCodeKanaItems;
          postalCodeRomeItem = lookupRome L (g_pref line) cityName townName postalCodeRomeItems
      in case getCenter coords (gaikuKey L line) of
           Inl e \<Rightarrow> Inl e
         | Inr center \<Rightarrow>
             arrayLiteral
               [Inr (Str prefCode),
                propertyOf postalCodeKanaItem k_postal,
                Inr (Str (g_pref line)),
                propertyOrEmpty postalCodeKanaItem (\<lambda>i. han2zen (k_prefKana i)),
                propertyOrEmpty postalCodeRomeItem r_prefRome,
                propertyOf postalCodeKanaItem k_lgcode,
                Inr (Str cityName),
                propertyOrEmpty postalCodeKanaItem (\<lambda>i. han2zen (k_cityKana i)),
                propertyOrEmpty postalCodeRomeItem r_cityRome,
                Inr (Str townName),
                propertyOrEmpty postalCodeKanaItem
                  (\<lambda>i. han2zen (removeStringEnclosedInParentheses (k_townKana i))
                        @ chomeSuffix (kanji2number L) townName),
                propertyOrEmpty postalCodeRomeItem
                  (\<lambda>i. removeStringEnclosedInParentheses (r_townRome i)
                        @ chomeSuffix (kanji2number L) townName),
                Inr (Str koazaName),
                Inr (Num (snd center)),
                Inr (Num (fst center))])"

text \<open>The second loop: a row whose key is already in the map is skipped; otherwise its
  record is appended under the key.\<close>

fun gaikuLoop ::
  "'k lib \<Rightarrow> jstring \<Rightarrow> kana_item list \<Rightarrow> rome_item list \<Rightarrow> 'k coords \<Rightarrow> 'k records
     \<Rightarrow> gaiku_line list \<Rightarrow> error + 'k records" where
  "gaikuLoop L prefCode ks rs coords records [] = Inr records"
| "gaikuLoop L prefCode ks rs coords records (line # rest) =
     (if map_of records (gaikuKey L line) \<noteq> None
      then gaikuLoop L prefCode ks rs coords records rest
      else (case gaikuRecord L prefCode ks rs coords line of
              Inl e \<Rightarrow> Inl e
            | Inr record \<Rightarrow>
                gaikuLoop L prefCode ks rs coords (records @ [(gaikuKey L line, record)]) rest))"

text \<open>
  \<open>getGaikuAddressItems\<close>. The global \<open>coords\<close> is threaded through: the function takes
  its value at the call and returns its value at the end, next to \<open>towns\<close> and the block
  points (\<open>gaikuItems\<close> before the join of each row into one line of text).
\<close>

definition getGaikuAddressItems ::
  "'k lib \<Rightarrow> jstring \<Rightarrow> kana_item list \<Rightarrow> rome_item list \<Rightarrow> 'k records \<Rightarrow> gaiku_line list
     \<Rightarrow> 'k coords \<Rightarrow> error + ('k records \<times> jsval list list \<times> 'k coords)" where
  "getGaikuAddressItems L prefCode postalCodeKanaItems postalCodeRomeItems records data coords =
     (case gaikuSamples L coords [] data of
        (coords', gaikuRecords) \<Rightarrow>
          (case gaikuLoop L prefCode postalCodeKanaItems postalCodeRomeItems coords' records data of
             Inl e \<Rightarrow> Inl e
           | Inr towns \<Rightarrow> Inr (towns, gaikuRecords, coords')))"

section \<open>One prefecture, and the loop over the prefectures\<close>

text \<open>\<open>parseInt(prefCode, 10)\<close> on a text that starts with a digit: the value of its
  leading digits.\<close>

definition parseInt10 :: "jstring \<Rightarrow> nat" where
  "parseInt10 s = foldl (\<lambda>a d. 10 * a + (d - 48)) 0 (takeWhile isDigit s)"

text \<open>\<open>prefNames[parseInt(prefCode, 10) - 1]\<close>; outside the table it is \<open>undefined\<close>, and
  no dictionary row has that name.\<close>

definition prefNameOf :: "jstring \<Rightarrow> jstring option" where
  "prefNameOf prefCode =
     (let n = parseInt10 prefCode
      in if 1 \<le> n \<and> n \<le> length prefNames then Some (prefNames ! (n - 1)) else None)"

definition getAddressItems ::
  "'k lib \<Rightarrow> jstring \<Rightarrow> kana_item list \<Rightarrow> rome_item list \<Rightarrow> (jstring \<rightharpoonup> 'k records)
     \<Rightarrow> oaza_line list \<Rightarrow> gaiku_line list \<Rightarrow> 'k coords
     \<Rightarrow> error + ('k records \<times> jsval list list \<times> 'k coords)" where
  "getAddressItems L prefCode postalCodeKanaItems postalCodeRomeItems patchData oaza gaiku coords =
     (let prefName = prefNameOf prefCode;
          filteredPostalCodeKanaItems =
            filter (\<lambda>item. Some (k_pref item) = prefName) postalCodeKanaItems;
          filteredPostalCodeRomeItems =
            filter (\<lambda>item. Some (r_pref item) = prefName) postalCodeRomeItems
      in case getOazaAddressItems L prefCode filteredPostalCodeKanaItems
                filteredPostalCodeRomeItems patchData oaza of
           Inl e \<Rightarrow> Inl e
         | Inr oazaData \<Rightarrow>
             getGaikuAddressItems L prefCode filteredPostalCodeKanaItems
               filteredPostalCodeRomeItems oazaData gaiku coords)"


text \<open>
  The state that outlives one prefecture: the global \<open>coords\<close>, and \<open>patchData\<close>, whose
  entry for a prefecture code is the very object that \<open>getOazaAddressItems\<close> and
  \<open>getGaikuAddressItems\<close> fill (\<open>patchData[prefCode] || {}\<close> makes a new object only when
  there is no entry).
\<close>

record 'k state =
  st_coords :: "'k coords"
  st_patchData :: "jstring \<rightharpoonup> 'k records"

text \<open>
  The body of the loop over \<open>prefCodeArray\<close> in \<open>main\<close>. \<open>files prefCode\<close> is the content
  of the two position-reference files of the prefecture. The result is the new state, the
  map \<open>towns\<close> and \<open>gaikuItems\<close>.
\<close>

definition prefStep ::
  "'k lib \<Rightarrow> kana_item list \<Rightarrow> rome_item list \<Rightarrow> (jstring \<Rightarrow> oaza_line list \<times> gaiku_line list)
     \<Rightarrow> 'k state \<Rightarrow> nat \<Rightarrow> error + ('k state \<times> 'k records \<times> jsval list list)" where
  "prefStep L postalCodeKanaItems postalCodeRomeItems files st prefNumber =
     (let prefCode = toPrefCode prefNumber
      in case getAddressItems L prefCode postalCodeKanaItems postalCodeRomeItems
                (st_patchData st) (fst (files prefCode)) (snd (files prefCode)) (st_coords st) of
           Inl e \<Rightarrow> Inl e
         | Inr (towns, gaikuItems, coords') \<Rightarrow>
             Inr (\<lparr>st_coords = coords',
                   st_patchData =
                     (case st_patchData st prefCode of
                        None \<Rightarrow> st_patchData st
                      | Some old \<Rightarrow> (st_patchData st)(prefCode \<mapsto> towns))\<rparr>,
                  towns, gaikuItems))"

text \<open>The loop: after each prefecture \<open>Object.values(towns)\<close> is pushed to the writer
  queue and \<open>gaikuItems\<close> to the block-point queue. An exception ends the build.\<close>

fun prefLoop ::
  "'k lib \<Rightarrow> kana_item list \<Rightarrow> rome_item list \<Rightarrow> (jstring \<Rightarrow> oaza_line list \<times> gaiku_line list)
     \<Rightarrow> 'k state \<Rightarrow> nat list \<Rightarrow> error + ('k state \<times> jsval list list \<times> jsval list list)" where
  "prefLoop L ks rs files st [] = Inr (st, [], [])"
| "prefLoop L ks rs files st (prefNumber # rest) =
     (case prefStep L ks rs files st prefNumber of
        Inl e \<Rightarrow> Inl e
      | Inr (st', towns, gaikuItems) \<Rightarrow>
          (case prefLoop L ks rs files st' rest of
             Inl e \<Rightarrow> Inl e
           | Inr (st'', pushed, points) \<Rightarrow>
               Inr (st'', map snd towns @ pushed, gaikuItems @ points)))"

section \<open>The writer queue and the postal backfill\<close>

text \<open>\<open>array[i]\<close>: \<open>undefined\<close> beyond the end of the array.\<close>

definition elemAt :: "jsval list \<Rightarrow> nat \<Rightarrow> jsval" where
  "elemAt array i = (if i < length array then array ! i else Undefined)"










section \<open>The output layout\<close>

definition col_cityCode :: nat where "col_cityCode = 5"


section \<open>The helpers of the library, from the specification\<close>

text \<open>
  Modelled from the spec: \<open>createRecordKey\<close> (lib/create-record-key, not under src/).
  The key is the ordered tuple of prefecture, city after the municipal renames, town and
  sub-district, the sub-district being empty when the argument is omitted.
\<close>

definition specRecordKey ::
  "jstring \<Rightarrow> jstring \<Rightarrow> jstring \<Rightarrow> jstring option \<Rightarrow> jstring \<times> jstring \<times> jstring \<times> jstring" where
  "specRecordKey pref city town koaza =
     (pref, renamedCity pref city, town, (case koaza of None \<Rightarrow> [] | Some k \<Rightarrow> k))"

text \<open>The town name without the chome suffix that \<open>GET_CHOME_NUMBER_REGEX\<close> finds in it.\<close>

definition stripChome :: "jstring \<Rightarrow> jstring" where
  "stripChome town =
     (case chomeMatch town of
        None \<Rightarrow> town
      | Some g \<Rightarrow>
          if g = [] then town
          else take (length town - (length g + (if last town = 30446 then 2 else 1))) town)"

text \<open>
  Modelled from the spec: \<open>getPostalKanaOrRomeItems\<close> (lib/get-postal-kana-or-rome-items,
  not under src/). The entries are those of one prefecture. The city is compared exactly;
  the town is tried exactly, then without its chome suffix, then against the entries
  with an empty town; the first entry of the first successful attempt is returned.
\<close>

definition specLookup ::
  "('i \<Rightarrow> jstring) \<Rightarrow> ('i \<Rightarrow> jstring) \<Rightarrow> jstring \<Rightarrow> jstring \<Rightarrow> 'i list \<Rightarrow> 'i option" where
  "specLookup cityOf townOf city town entries =
     (case find (\<lambda>e. cityOf e = city \<and> townOf e = town) entries of
        Some e \<Rightarrow> Some e
      | None \<Rightarrow>
          (case find (\<lambda>e. cityOf e = city \<and> townOf e = stripChome town) entries of
             Some e \<Rightarrow> Some e
           | None \<Rightarrow> find (\<lambda>e. cityOf e = city \<and> townOf e = []) entries))"

text \<open>
  Modelled from the spec: \<open>kanji2number\<close> (package @geolonia/japanese-numeral, not under
  src/) on the numerals that \<open>GET_CHOME_NUMBER_REGEX\<close> captures: with a ten, the digit
  before it (one when absent) counts tens and the digit after it units; without a ten the
  digits are read positionally.
\<close>

definition kanjiDigit :: "nat \<Rightarrow> nat" where
  "kanjiDigit c = length (takeWhile (\<lambda>d. d \<noteq> c) kanji1to9) + 1"

definition specKanji2number :: "jstring \<Rightarrow> nat" where
  "specKanji2number g =
     (if 21313 \<in> set g
      then (case takeWhile (\<lambda>c. c \<noteq> 21313) g of [] \<Rightarrow> 10 | a # as \<Rightarrow> 10 * kanjiDigit a)
           + (case tl (dropWhile (\<lambda>c. c \<noteq> 21313) g) of [] \<Rightarrow> 0 | b # bs \<Rightarrow> kanjiDigit b)
      else foldl (\<lambda>a c. 10 * a + kanjiDigit c) 0 g)"

definition specLib :: "(jstring \<times> jstring \<times> jstring \<times> jstring) lib" where
  "specLib =
     \<lparr>createRecordKey = specRecordKey,
      lookupKana = (\<lambda>pref city town entries. specLookup k_city k_town city town entries),
      lookupRome = (\<lambda>pref city town entries. specLookup r_city r_town city town entries),
      kanji2number = specKanji2number\<rparr>"

section \<open>The specification's reading of the text normaliser\<close>

text \<open>Trimming the white space of the ASCII range only.\<close>

definition trimAscii :: "jstring \<Rightarrow> jstring" where
  "trimAscii s = rev (dropWhile isAsciiSpace (rev (dropWhile isAsciiSpace s)))"

text \<open>\<open>normalizeWhitespace\<close> in the words of the specification: every full-width space
  is removed, ASCII white space is trimmed from both ends, nothing else changes.\<close>

definition specNormalizeWhitespace :: "jstring \<Rightarrow> jstring" where
  "specNormalizeWhitespace text = trimAscii (filter (\<lambda>c. c \<noteq> 12288) text)"

section \<open>Concrete rows\<close>

text \<open>
  Rows on which the model is evaluated: the prefecture Hokkaido (code 01), the city of
  Sapporo, the town Asahi-machi with a first and a second chome, one entry of each postal
  dictionary for the town, and a city-level romaji entry with an empty town.
\<close>

definition hokkaido :: jstring where "hokkaido = [21271, 28023, 36947]"

definition sapporo :: jstring where "sapporo = [26413, 24140, 24066]"

definition asahi1 :: jstring where "asahi1 = [26093, 30010, 19968, 19969, 30446]"

definition asahi2 :: jstring where "asahi2 = [26093, 30010, 20108, 19969, 30446]"

definition exKana :: kana_item where
  "exKana =
     \<lparr>k_lgcode = ascii ''01101'', k_postal = ascii ''0640941'', k_prefKana = [65422],
      k_cityKana = [65403], k_townKana = [65393, 65403, 65419], k_pref = hokkaido,
      k_city = sapporo, k_town = [26093, 30010]\<rparr>"

definition exRome :: rome_item where
  "exRome =
     \<lparr>r_postal = ascii ''0640941'', r_pref = hokkaido, r_city = sapporo,
      r_town = [26093, 30010], r_prefRome = ascii ''HOKKAIDO'', r_cityRome = ascii ''SAPPORO SHI'',
      r_townRome = ascii ''ASAHI MACHI''\<rparr>"


definition exOaza :: oaza_line where
  "exOaza =
     \<lparr>o_pref = hokkaido, o_city = sapporo, o_town = asahi1, o_cityCode = ascii ''01101'',
      o_lat = 43, o_lng = 141\<rparr>"

definition exGaiku :: "real \<Rightarrow> gaiku_line" where
  "exGaiku lng =
     \<lparr>g_pref = hokkaido, g_city = sapporo, g_town = asahi2, g_koaza = ascii ''NULL'',
      g_flag = ascii ''1'', g_num = ascii ''5'', g_lat = 43, g_lng = lng\<rparr>"

text \<open>The record of \<open>exOaza\<close> in the output layout, with postal code \<open>p\<close>.\<close>

definition exRecord :: "jstring \<Rightarrow> jsval list" where
  "exRecord p =
     [Str (ascii ''01''), Str p, Str hokkaido, Str [12507], Str (ascii ''HOKKAIDO''),
      Str (ascii ''01101''), Str sapporo, Str [12469], Str (ascii ''SAPPORO SHI''), Str asahi1,
      Str [12450, 12469, 12498, 32, 49], Str (ascii ''ASAHI MACHI 1''), Str [], Num 43, Num 141]"








text \<open>The record of \<open>exGaiku\<close> in the output layout, with longitude \<open>lng\<close>.\<close>

definition exGaikuRecord :: "real \<Rightarrow> jsval list" where
  "exGaikuRecord lng =
     [Str (ascii ''01''), Str (ascii ''0640941''), Str hokkaido, Str [12507],
      Str (ascii ''HOKKAIDO''), Str (ascii ''01101''), Str sapporo, Str [12469],
      Str (ascii ''SAPPORO SHI''), Str asahi2, Str [12450, 12469, 12498, 32, 50],
      Str (ascii ''ASAHI MACHI 2''), Str [], Num 43, Num lng]"

text \<open>The files of the build: those of prefecture 01 hold the rows above, all others are
  empty. The initial state has no samples and no patches.\<close>

definition exFiles :: "jstring \<Rightarrow> oaza_line list \<times> gaiku_line list" where
  "exFiles prefCode =
     (if prefCode = ascii ''01'' then ([exOaza, exOaza], [exGaiku 141, exGaiku 142]) else ([], []))"

definition exState :: "(jstring \<times> jstring \<times> jstring \<times> jstring) state" where
  "exState = \<lparr>st_coords = Map.empty, st_patchData = Map.empty\<rparr>"

text \<open>What the build has after prefecture 01: the two records, the two block points,
  and the state, whose store holds the two samples of the second chome.\<close>

definition exTowns :: "(jstring \<times> jstring \<times> jstring \<times> jstring) records" where
  "exTowns =
     [((hokkaido, sapporo, asahi1, []), exRecord (ascii ''0640941'')),
      ((hokkaido, sapporo, asahi2, []), exGaikuRecord 141)]"

definition exPoints :: "jsval list list" where
  "exPoints =
     [[Str hokkaido, Str sapporo, Str asahi2, Str (ascii ''5''), Num 141, Num 43],
      [Str hokkaido, Str sapporo, Str asahi2, Str (ascii ''5''), Num 142, Num 43]]"

definition exStateAfter01 :: "(jstring \<times> jstring \<times> jstring \<times> jstring) state" where
  "exStateAfter01 =
     \<lparr>st_coords = Map.empty((hokkaido, sapporo, asahi2, []) \<mapsto> [(141, 43), (142, 43)]),
      st_patchData = Map.empty\<rparr>"

section \<open>Properties of the text normaliser\<close>

lemma trim_decomp:
  "\<exists>pre suf. s = pre @ trim s @ suf \<and> list_all isTrimmed pre \<and> list_all isTrimmed suf"
proof -
  let ?s1 = "dropWhile isTrimmed s"
  have "s = takeWhile isTrimmed s @ ?s1" by simp
  moreover have "?s1 = trim s @ rev (takeWhile isTrimmed (rev ?s1))"
  proof -
    have "rev ?s1 = takeWhile isTrimmed (rev ?s1) @ dropWhile isTrimmed (rev ?s1)" by simp
    then have "?s1 = rev (dropWhile isTrimmed (rev ?s1)) @ rev (takeWhile isTrimmed (rev ?s1))"
      by (metis rev_append rev_rev_ident)
    then show ?thesis by (simp add: trim_def)
  qed
  moreover have "list_all isTrimmed (takeWhile isTrimmed s)"
    by (auto simp: list_all_iff dest: set_takeWhileD)
  moreover have "list_all isTrimmed (rev (takeWhile isTrimmed (rev ?s1)))"
    by (auto simp: list_all_iff dest: set_takeWhileD)
  ultimately show ?thesis by metis
qed

lemma trim_ends:
  assumes "trim s \<noteq> []"
  shows "\<not> isTrimmed (hd (trim s)) \<and> \<not> isTrimmed (last (trim s))"
proof -
  let ?s1 = "dropWhile isTrimmed s"
  let ?d = "dropWhile isTrimmed (rev ?s1)"
  have d: "?d \<noteq> []" using assms by (simp add: trim_def)
  then have l: "\<not> isTrimmed (hd ?d)" by (rule hd_dropWhile)
  have "last (trim s) = hd ?d" using d by (simp add: trim_def last_rev)
  with l have 1: "\<not> isTrimmed (last (trim s))" by simp
  have s1: "?s1 \<noteq> []"
  proof
    assume "?s1 = []"
    then have "?d = []" by (simp only: rev.simps dropWhile.simps)
    with d show False by simp
  qed
  then have h: "\<not> isTrimmed (hd ?s1)" by (rule hd_dropWhile)
  have "rev ?s1 = takeWhile isTrimmed (rev ?s1) @ ?d" by simp
  then have "?s1 = rev ?d @ rev (takeWhile isTrimmed (rev ?s1))"
    by (metis rev_append rev_rev_ident)
  then have "hd ?s1 = hd (rev ?d)" using d by (metis hd_append2 rev_is_Nil_conv)
  then have "hd (trim s) = hd ?s1" by (simp add: trim_def)
  with h 1 show ?thesis by simp
qed

lemma replace_first_single:
  "(c \<notin> set s \<longrightarrow> replace_first [c] [] s = s) \<and>
   (c \<in> set s \<longrightarrow> (\<exists>a b. s = a @ c # b \<and> c \<notin> set a \<and> replace_first [c] [] s = a @ b))"
proof (induction s)
  case Nil
  then show ?case by simp
next
  case (Cons x xs)
  show ?case
  proof (cases "x = c")
    case True
    then have "x # xs = [] @ c # xs \<and> c \<notin> set [] \<and> replace_first [c] [] (x # xs) = [] @ xs"
      by simp
    then show ?thesis using True by (metis list.set_intros(1))
  next
    case False
    show ?thesis
    proof (cases "c \<in> set xs")
      case True
      with Cons obtain a b where ab: "xs = a @ c # b" "c \<notin> set a" "replace_first [c] [] xs = a @ b"
        by blast
      then have "x # xs = (x # a) @ c # b \<and> c \<notin> set (x # a) \<and> replace_first [c] [] (x # xs) = (x # a) @ b"
        using False by simp
      then show ?thesis using True by (metis list.set_intros(2))
    next
      case n: False
      with Cons False show ?thesis by simp
    qed
  qed
qed

text \<open>
  Claim C9, as the code has it. \<open>removeUnnecessarySpace\<close> deletes the first full-width
  space (U+3000) of the string and no later one, then strips from both ends every unit
  that \<open>trim\<close> strips (the ECMAScript white space and line terminators, which include
  non-ASCII units such as U+00A0, U+FEFF and U+3000 itself): the result, framed by two
  runs of such units, is the string after the deletion, and it neither starts nor ends
  with such a unit. Nothing else is altered.
\<close>

theorem removeUnnecessarySpace_effect:
  "(12288 \<notin> set s \<longrightarrow> replace_first [12288] [] s = s)
   \<and> (12288 \<in> set s \<longrightarrow>
        (\<exists>a b. s = a @ 12288 # b \<and> 12288 \<notin> set a \<and> replace_first [12288] [] s = a @ b))
   \<and> (\<exists>pre suf. replace_first [12288] [] s = pre @ removeUnnecessarySpace s @ suf
         \<and> list_all isTrimmed pre \<and> list_all isTrimmed suf)
   \<and> (removeUnnecessarySpace s \<noteq> [] \<longrightarrow>
        \<not> isTrimmed (hd (removeUnnecessarySpace s))
        \<and> \<not> isTrimmed (last (removeUnnecessarySpace s)))"
  using replace_first_single [of 12288 s] trim_decomp [of "replace_first [12288] [] s"]
    trim_ends [of "replace_first [12288] [] s"]
  unfolding removeUnnecessarySpace_def by blast

theorem removeUnnecessarySpace_effect_witness:
  "12288 \<in> set [32, 12288, 26093, 12288, 26085, 160 :: nat]
   \<and> removeUnnecessarySpace [32, 12288, 26093, 12288, 26085, 160] = [26093, 12288, 26085]
   \<and> (\<exists>a b. [32, 12288, 26093, 12288, 26085, 160] = a @ 12288 # b \<and> 12288 \<notin> set a
          \<and> replace_first [12288] [] [32, 12288, 26093, 12288, 26085, 160] = a @ b)
   \<and> \<not> isTrimmed (hd (removeUnnecessarySpace [32, 12288, 26093, 12288, 26085, 160]))"
proof -
  have m: "12288 \<in> set [32, 12288, 26093, 12288, 26085, 160 :: nat]" by simp
  have e: "removeUnnecessarySpace [32, 12288, 26093, 12288, 26085, 160] = [26093, 12288, 26085]"
    by (simp add: removeUnnecessarySpace_def trim_def isTrimmed_def isLineTerminator_def)
  then have n: "removeUnnecessarySpace [32, 12288, 26093, 12288, 26085, 160] \<noteq> []" by simp
  from removeUnnecessarySpace_effect [of "[32, 12288, 26093, 12288, 26085, 160]"] m n e
  show ?thesis by blast
qed

text \<open>
  Claim C9 as stated fails: a leading no-break space (U+00A0) is neither the full-width
  space nor ASCII white space, yet it is removed; and of two full-width spaces inside a
  name only the first is removed.
\<close>

theorem removeUnnecessarySpace_counterexample:
  "removeUnnecessarySpace [160, 26093] = [26093]
   \<and> specNormalizeWhitespace [160, 26093] = [160, 26093]
   \<and> removeUnnecessarySpace [26093, 12288, 12288, 26085] = [26093, 12288, 26085]
   \<and> specNormalizeWhitespace [26093, 12288, 12288, 26085] = [26093, 26085]"
  by (simp add: removeUnnecessarySpace_def trim_def isTrimmed_def isLineTerminator_def
      specNormalizeWhitespace_def trimAscii_def isAsciiSpace_def)

section \<open>The representative point of a key\<close>

lemma nearest_fold:
  "fold (\<lambda>q best. if d q < d best then q else best) ps p \<in> set (p # ps)
   \<and> (\<forall>s \<in> set (p # ps). d (fold (\<lambda>q best. if d q < d best then q else best) ps p) \<le> (d s :: real))"
proof (induction ps arbitrary: p)
  case Nil
  then show ?case by simp
next
  case (Cons q qs)
  let ?b = "if d q < d p then q else p"
  from Cons [of ?b] have ih:
    "fold (\<lambda>q best. if d q < d best then q else best) qs ?b \<in> set (?b # qs)"
    "\<forall>s \<in> set (?b # qs). d (fold (\<lambda>q best. if d q < d best then q else best) qs ?b) \<le> d s"
    by blast+
  have b: "d ?b \<le> d p" "d ?b \<le> d q" by auto
  from ih(2) have le: "d (fold (\<lambda>q best. if d q < d best then q else best) qs ?b) \<le> d ?b"
    by simp
  have 1: "fold (\<lambda>q best. if d q < d best then q else best) (q # qs) p \<in> set (p # q # qs)"
    using ih(1) by (auto split: if_splits)
  have 2: "\<forall>s \<in> set (p # q # qs). d (fold (\<lambda>q best. if d q < d best then q else best) (q # qs) p) \<le> d s"
  proof
    fix s assume "s \<in> set (p # q # qs)"
    then consider "s = p" | "s = q" | "s \<in> set qs" by auto
    then show "d (fold (\<lambda>q best. if d q < d best then q else best) (q # qs) p) \<le> d s"
    proof cases
      case 1 then show ?thesis using le b(1) by simp
    next
      case 2 then show ?thesis using le b(2) by simp
    next
      case 3 then show ?thesis using ih(2) by simp
    qed
  qed
  from 1 2 show ?case by blast
qed

lemma turfNearestPoint_Some:
  assumes "arr \<noteq> []"
  shows "\<exists>p. turfNearestPoint c arr = Some p \<and> p \<in> set arr
             \<and> (\<forall>s \<in> set arr. euclid2 c p \<le> euclid2 c s)"
proof -
  from assms obtain a as where arr: "arr = a # as" by (cases arr) auto
  show ?thesis unfolding arr using nearest_fold [of "euclid2 c" as a] by simp
qed

text \<open>
  Claim C4. \<open>addToCoords\<close> appends the sample to the array of its key, so a key with a
  sample has a non-empty array; for such a key \<open>getCenter\<close> returns an element of that
  array, and no element of the array is closer (Euclidean distance in longitude/latitude
  space) to the centre of the bounding box than the one returned. The result is never an
  interpolated point.
\<close>

theorem getCenter_returns_nearest_sample:
  "addToCoords coords k lng lat k
     = Some ((case coords k of None \<Rightarrow> [] | Some a \<Rightarrow> a) @ [(lng, lat)])
   \<and> (coords k = Some arr \<and> arr \<noteq> [] \<longrightarrow>
        (\<exists>p. getCenter coords k = Inr p \<and> p \<in> set arr
             \<and> (\<forall>s \<in> set arr. sqrt (euclid2 (turfCenter arr) p)
                                  \<le> sqrt (euclid2 (turfCenter arr) s))))"
proof -
  have 1: "addToCoords coords k lng lat k
     = Some ((case coords k of None \<Rightarrow> [] | Some a \<Rightarrow> a) @ [(lng, lat)])"
    by (simp add: addToCoords_def split: option.splits)
  have 2: "\<exists>p. getCenter coords k = Inr p \<and> p \<in> set arr
             \<and> (\<forall>s \<in> set arr. sqrt (euclid2 (turfCenter arr) p)
                                  \<le> sqrt (euclid2 (turfCenter arr) s))"
    if "coords k = Some arr" "arr \<noteq> []"
  proof -
    from turfNearestPoint_Some [OF that(2), of "turfCenter arr"] obtain p where
      p: "turfNearestPoint (turfCenter arr) arr = Some p" "p \<in> set arr"
         "\<forall>s \<in> set arr. euclid2 (turfCenter arr) p \<le> euclid2 (turfCenter arr) s"
      by blast
    have "getCenter coords k = Inr p" using that(1) p(1) by (simp add: getCenter_def)
    with p show ?thesis by simp
  qed
  from 1 2 show ?thesis by blast
qed

theorem getCenter_returns_nearest_sample_witness:
  "getCenter (addToCoords (addToCoords (addToCoords Map.empty (0::nat) 139 35) 0 (1394 / 10) 35) 0 140 35) 0
     = Inr (1394 / 10, 35)
   \<and> turfCenter [(139, 35), (1394 / 10, 35), (140, 35)] = (1395 / 10, 35)"
proof -
  let ?c = "addToCoords (addToCoords (addToCoords Map.empty (0::nat) 139 35) 0 (1394 / 10) 35) 0 140 35"
  let ?arr = "[(139, 35), (1394 / 10, 35), (140, 35)] :: sample list"
  have c: "?c 0 = Some ?arr" by (simp add: addToCoords_def)
  have n: "?arr \<noteq> []" by simp
  have t: "turfCenter ?arr = (1395 / 10, 35)" by (simp add: turfCenter_def)
  from getCenter_returns_nearest_sample [of ?c "0::nat" 0 0 ?arr] c n
  obtain p where p: "getCenter ?c 0 = Inr p" "p \<in> set ?arr"
    "\<forall>s \<in> set ?arr. sqrt (euclid2 (turfCenter ?arr) p) \<le> sqrt (euclid2 (turfCenter ?arr) s)"
    by blast
  from p(3) have "euclid2 (turfCenter ?arr) p \<le> euclid2 (turfCenter ?arr) (1394 / 10, 35)"
    by simp
  with p(2) have "p = (1394 / 10, 35)" unfolding t by (auto simp: euclid2_def power2_eq_square)
  with p(1) t show ?thesis by simp
qed

section \<open>Evaluation on the concrete rows\<close>

lemma chomeMatch_asahi1: "chomeMatch asahi1 = Some [19968]"
  by (simp add: asahi1_def chomeMatchHere_def chomeGroup_def kanji2to9_def kanji1to9_def)

lemma specKanji2number_one: "specKanji2number [19968] = 1"
  by (simp add: specKanji2number_def kanjiDigit_def kanji1to9_def kanji2to9_def)

lemma getChomeNumber_asahi1: "getChomeNumber specKanji2number asahi1 [] = [49]"
  by (simp add: getChomeNumber_def chomeMatch_asahi1 specKanji2number_one showNat.simps)

lemma stripChome_asahi1: "stripChome asahi1 = [26093, 30010]"
  by (simp add: stripChome_def chomeMatch_asahi1) (simp add: asahi1_def)

lemma normalised_asahi1: "removeUnnecessarySpace asahi1 = asahi1"
  by (simp add: removeUnnecessarySpace_def trim_def asahi1_def isTrimmed_def isLineTerminator_def)

lemma renamedCity_sapporo: "renamedCity hokkaido sapporo = sapporo"
  by (simp add: renamedCity_def isjRenames_def hokkaido_def sapporo_def)

lemma lookupKana_asahi1:
  "lookupKana specLib hokkaido sapporo asahi1 [exKana\<lparr>k_postal := p\<rparr>]
     = Some (exKana\<lparr>k_postal := p\<rparr>)"
  by (simp add: specLib_def specLookup_def stripChome_asahi1 exKana_def)

lemma lookupRome_asahi1: "lookupRome specLib hokkaido sapporo asahi1 [exRome] = Some exRome"
  by (simp add: specLib_def specLookup_def stripChome_asahi1 exRome_def)

lemma han2zen_ex: "han2zen [65422] = [12507]" "han2zen [65403] = [12469]"
  "han2zen [65393, 65403, 65419] = [12450, 12469, 12498]"
  by (simp_all add: han2zenMap_def)

lemma removeParens_ex: "removeStringEnclosedInParentheses [65393, 65403, 65419] = [65393, 65403, 65419]"
  "removeStringEnclosedInParentheses (ascii ''ASAHI MACHI'') = ascii ''ASAHI MACHI''"
  by (simp_all add: ascii_def)

lemma exOaza_record:
  "oazaRecord specLib (ascii ''01'') [exKana\<lparr>k_postal := p\<rparr>] [exRome] exOaza = Inr (exRecord p)"
  apply (simp add: oazaRecord_def exOaza_def renamedCity_sapporo normalised_asahi1 lookupKana_asahi1 lookupRome_asahi1)
  apply (simp add: propertyOf_def propertyOrEmpty_def chomeSuffix_def specLib_def getChomeNumber_asahi1
      exRecord_def)
  apply (simp add: exKana_def exRome_def han2zen_ex removeParens_ex del: han2zen.simps removeStringEnclosedInParentheses.simps)
  apply (simp add: ascii_def)
  done

lemma chomeMatch_asahi2: "chomeMatch asahi2 = Some [20108]"
  by (simp add: asahi2_def chomeMatchHere_def chomeGroup_def kanji2to9_def kanji1to9_def)

lemma specKanji2number_two: "specKanji2number [20108] = 2"
  by (simp add: specKanji2number_def kanjiDigit_def kanji1to9_def kanji2to9_def)

lemma getChomeNumber_asahi2: "getChomeNumber specKanji2number asahi2 [] = [50]"
  by (simp add: getChomeNumber_def chomeMatch_asahi2 specKanji2number_two showNat.simps)

lemma stripChome_asahi2: "stripChome asahi2 = [26093, 30010]"
  by (simp add: stripChome_def chomeMatch_asahi2) (simp add: asahi2_def)

lemma normalised_asahi2: "removeUnnecessarySpace asahi2 = asahi2"
  by (simp add: removeUnnecessarySpace_def trim_def asahi2_def isTrimmed_def isLineTerminator_def)

lemma lookupKana_asahi2: "lookupKana specLib hokkaido sapporo asahi2 [exKana] = Some exKana"
  by (simp add: specLib_def specLookup_def stripChome_asahi2 exKana_def)

lemma lookupRome_asahi2: "lookupRome specLib hokkaido sapporo asahi2 [exRome] = Some exRome"
  by (simp add: specLib_def specLookup_def stripChome_asahi2 exRome_def)

lemma koazaOf_exGaiku: "koazaOf (exGaiku x) = []"
  by (simp add: koazaOf_def exGaiku_def)

lemma oazaKey_exOaza: "oazaKey specLib exOaza = (hokkaido, sapporo, asahi1, [])"
  by (simp add: oazaKey_def specLib_def specRecordKey_def exOaza_def renamedCity_sapporo
      normalised_asahi1)

lemma gaikuKey_exGaiku: "gaikuKey specLib (exGaiku x) = (hokkaido, sapporo, asahi2, [])"
  by (simp add: gaikuKey_def specLib_def specRecordKey_def koazaOf_exGaiku renamedCity_sapporo)
     (simp add: exGaiku_def renamedCity_sapporo normalised_asahi2)

lemma keys_differ: "(hokkaido, sapporo, asahi1, []) \<noteq> (hokkaido, sapporo, asahi2, [])"
  by (simp add: asahi1_def asahi2_def)

lemma exGaiku_record:
  assumes "getCenter cs (hokkaido, sapporo, asahi2, []) = Inr (lng, 43)"
  shows "gaikuRecord specLib (ascii ''01'') [exKana] [exRome] cs (exGaiku x) = Inr (exGaikuRecord lng)"
  apply (simp add: gaikuRecord_def gaikuKey_exGaiku assms koazaOf_exGaiku)
  apply (simp add: exGaiku_def renamedCity_sapporo normalised_asahi2 lookupKana_asahi2
      lookupRome_asahi2)
  apply (simp add: propertyOf_def propertyOrEmpty_def chomeSuffix_def specLib_def
      getChomeNumber_asahi2 exGaikuRecord_def exGaiku_def)
  apply (simp add: exKana_def exRome_def han2zen_ex removeParens_ex exGaiku_def
      del: han2zen.simps removeStringEnclosedInParentheses.simps)
  apply (simp add: ascii_def)
  done

lemma getCenter_ex:
  "cs k = Some [(141, 43), (142, 43)] \<Longrightarrow> getCenter cs k = Inr (141, 43)"
  "cs k = Some [(141, 43)] \<Longrightarrow> getCenter cs k = Inr (141, 43)"
  by (simp_all add: getCenter_def turfCenter_def euclid2_def power2_eq_square)

lemma oazaLoop_ex_skip:
  "oazaLoop specLib (ascii ''01'') ks rs [((hokkaido, sapporo, asahi1, []), r)] [exOaza]
     = Inr [((hokkaido, sapporo, asahi1, []), r)]"
  by (simp add: oazaKey_exOaza)

lemma gaikuLoop_ex_new:
  assumes "cs (hokkaido, sapporo, asahi2, []) = Some [(141, 43), (142, 43)]"
  shows "gaikuLoop specLib (ascii ''01'') [exKana] [exRome] cs
           [((hokkaido, sapporo, asahi1, []), r)] [exGaiku 141, exGaiku 142]
         = Inr [((hokkaido, sapporo, asahi1, []), r),
                ((hokkaido, sapporo, asahi2, []), exGaikuRecord 141)]"
  using keys_differ
  by (simp add: gaikuKey_exGaiku exGaiku_record [OF getCenter_ex(1) [of cs "(hokkaido, sapporo, asahi2, [])", OF assms]])

section \<open>The loops of the two passes\<close>

lemma map_of_snoc_other: "map_of records k = Some v \<Longrightarrow> map_of (records @ new) k = Some v"
  by (simp add: map_add_Some_iff)

lemma map_of_snoc_new:
  "map_of records k = None \<Longrightarrow> map_of (records @ [(k', r)]) k = (if k = k' then Some r else None)"
  by (simp add: map_add_def)

lemma oazaLoop_extends:
  "oazaLoop L pc ks rs records data = Inr towns \<Longrightarrow>
     \<exists>new. towns = records @ new \<and> fst ` set new \<subseteq> oazaKey L ` set data"
proof (induction data arbitrary: records)
  case Nil
  then show ?case by simp
next
  case (Cons line rest)
  show ?case
  proof (cases "map_of records (oazaKey L line) \<noteq> None")
    case True
    with Cons.prems have "oazaLoop L pc ks rs records rest = Inr towns" by simp
    from Cons.IH [OF this] show ?thesis by auto
  next
    case False
    with Cons.prems obtain r where r: "oazaRecord L pc ks rs line = Inr r"
      and l: "oazaLoop L pc ks rs (records @ [(oazaKey L line, r)]) rest = Inr towns"
      by (auto split: sum.splits)
    from Cons.IH [OF l] obtain new where
      "towns = (records @ [(oazaKey L line, r)]) @ new" "fst ` set new \<subseteq> oazaKey L ` set rest"
      by blast
    then have "towns = records @ ((oazaKey L line, r) # new)
      \<and> fst ` set ((oazaKey L line, r) # new) \<subseteq> oazaKey L ` set (line # rest)"
      by auto
    then show ?thesis by blast
  qed
qed

lemma oazaLoop_keeps:
  "oazaLoop L pc ks rs records data = Inr towns \<Longrightarrow> map_of records k = Some v \<Longrightarrow>
     map_of towns k = Some v"
  using oazaLoop_extends map_of_snoc_other by fastforce

lemma oazaLoop_distinct:
  "oazaLoop L pc ks rs records data = Inr towns \<Longrightarrow> distinct (map fst records) \<Longrightarrow>
     distinct (map fst towns)"
proof (induction data arbitrary: records)
  case Nil
  then show ?case by simp
next
  case (Cons line rest)
  show ?case
  proof (cases "map_of records (oazaKey L line) \<noteq> None")
    case True
    with Cons.prems have "oazaLoop L pc ks rs records rest = Inr towns" by simp
    from Cons.IH [OF this Cons.prems(2)] show ?thesis .
  next
    case False
    with Cons.prems obtain r where
      l: "oazaLoop L pc ks rs (records @ [(oazaKey L line, r)]) rest = Inr towns"
      by (auto split: sum.splits)
    from False have "oazaKey L line \<notin> fst ` set records" by (simp add: map_of_eq_None_iff)
    with Cons.prems(2) have "distinct (map fst (records @ [(oazaKey L line, r)]))" by simp
    from Cons.IH [OF l this] show ?thesis .
  qed
qed

lemma oazaLoop_first:
  "oazaLoop L pc ks rs records data = Inr towns \<Longrightarrow> map_of records k = None \<Longrightarrow>
     map_of towns k =
       (case find (\<lambda>l. oazaKey L l = k) data of
          None \<Rightarrow> None
        | Some l \<Rightarrow> (case oazaRecord L pc ks rs l of Inl e \<Rightarrow> None | Inr r \<Rightarrow> Some r))
     \<and> (\<forall>l. find (\<lambda>l. oazaKey L l = k) data = Some l \<longrightarrow> (\<exists>r. oazaRecord L pc ks rs l = Inr r))"
proof (induction data arbitrary: records)
  case Nil
  then show ?case by simp
next
  case (Cons line rest)
  show ?case
  proof (cases "map_of records (oazaKey L line) \<noteq> None")
    case True
    with Cons.prems have l: "oazaLoop L pc ks rs records rest = Inr towns" by simp
    from True Cons.prems(2) have "oazaKey L line \<noteq> k" by auto
    with Cons.IH [OF l Cons.prems(2)] show ?thesis by simp
  next
    case False
    with Cons.prems obtain r where r: "oazaRecord L pc ks rs line = Inr r"
      and l: "oazaLoop L pc ks rs (records @ [(oazaKey L line, r)]) rest = Inr towns"
      by (auto split: sum.splits)
    show ?thesis
    proof (cases "oazaKey L line = k")
      case True
      have "map_of (records @ [(oazaKey L line, r)]) k = Some r"
        using Cons.prems(2) True by (simp add: map_add_def)
      from oazaLoop_keeps [OF l this] have "map_of towns k = Some r" .
      with True r show ?thesis by simp
    next
      case ne: False
      then have "map_of (records @ [(oazaKey L line, r)]) k = None"
        using Cons.prems(2) by (simp add: map_add_def)
      from Cons.IH [OF l this] ne show ?thesis by simp
    qed
  qed
qed

lemma gaikuLoop_extends:
  "gaikuLoop L pc ks rs cs records data = Inr towns \<Longrightarrow>
     \<exists>new. towns = records @ new \<and> fst ` set new \<subseteq> gaikuKey L ` set data"
proof (induction data arbitrary: records)
  case Nil
  then show ?case by simp
next
  case (Cons line rest)
  show ?case
  proof (cases "map_of records (gaikuKey L line) \<noteq> None")
    case True
    with Cons.prems have "gaikuLoop L pc ks rs cs records rest = Inr towns" by simp
    from Cons.IH [OF this] show ?thesis by auto
  next
    case False
    with Cons.prems obtain r where r: "gaikuRecord L pc ks rs cs line = Inr r"
      and l: "gaikuLoop L pc ks rs cs (records @ [(gaikuKey L line, r)]) rest = Inr towns"
      by (auto split: sum.splits)
    from Cons.IH [OF l] obtain new where
      "towns = (records @ [(gaikuKey L line, r)]) @ new" "fst ` set new \<subseteq> gaikuKey L ` set rest"
      by blast
    then have "towns = records @ ((gaikuKey L line, r) # new)
      \<and> fst ` set ((gaikuKey L line, r) # new) \<subseteq> gaikuKey L ` set (line # rest)"
      by auto
    then show ?thesis by blast
  qed
qed

lemma gaikuLoop_keeps:
  "gaikuLoop L pc ks rs cs records data = Inr towns \<Longrightarrow> map_of records k = Some v \<Longrightarrow>
     map_of towns k = Some v"
  using gaikuLoop_extends map_of_snoc_other by fastforce

lemma gaikuLoop_distinct:
  "gaikuLoop L pc ks rs cs records data = Inr towns \<Longrightarrow> distinct (map fst records) \<Longrightarrow>
     distinct (map fst towns)"
proof (induction data arbitrary: records)
  case Nil
  then show ?case by simp
next
  case (Cons line rest)
  show ?case
  proof (cases "map_of records (gaikuKey L line) \<noteq> None")
    case True
    with Cons.prems have "gaikuLoop L pc ks rs cs records rest = Inr towns" by simp
    from Cons.IH [OF this Cons.prems(2)] show ?thesis .
  next
    case False
    with Cons.prems obtain r where
      l: "gaikuLoop L pc ks rs cs (records @ [(gaikuKey L line, r)]) rest = Inr towns"
      by (auto split: sum.splits)
    from False have "gaikuKey L line \<notin> fst ` set records" by (simp add: map_of_eq_None_iff)
    with Cons.prems(2) have "distinct (map fst (records @ [(gaikuKey L line, r)]))" by simp
    from Cons.IH [OF l this] show ?thesis .
  qed
qed

lemma gaikuLoop_first:
  "gaikuLoop L pc ks rs cs records data = Inr towns \<Longrightarrow> map_of records k = None \<Longrightarrow>
     map_of towns k =
       (case find (\<lambda>l. gaikuKey L l = k) data of
          None \<Rightarrow> None
        | Some l \<Rightarrow> (case gaikuRecord L pc ks rs cs l of Inl e \<Rightarrow> None | Inr r \<Rightarrow> Some r))
     \<and> (\<forall>l. find (\<lambda>l. gaikuKey L l = k) data = Some l \<longrightarrow> (\<exists>r. gaikuRecord L pc ks rs cs l = Inr r))"
proof (induction data arbitrary: records)
  case Nil
  then show ?case by simp
next
  case (Cons line rest)
  show ?case
  proof (cases "map_of records (gaikuKey L line) \<noteq> None")
    case True
    with Cons.prems have l: "gaikuLoop L pc ks rs cs records rest = Inr towns" by simp
    from True Cons.prems(2) have "gaikuKey L line \<noteq> k" by auto
    with Cons.IH [OF l Cons.prems(2)] show ?thesis by simp
  next
    case False
    with Cons.prems obtain r where r: "gaikuRecord L pc ks rs cs line = Inr r"
      and l: "gaikuLoop L pc ks rs cs (records @ [(gaikuKey L line, r)]) rest = Inr towns"
      by (auto split: sum.splits)
    show ?thesis
    proof (cases "gaikuKey L line = k")
      case True
      have "map_of (records @ [(gaikuKey L line, r)]) k = Some r"
        using Cons.prems(2) True by (simp add: map_add_def)
      from gaikuLoop_keeps [OF l this] have "map_of towns k = Some r" .
      with True r show ?thesis by simp
    next
      case ne: False
      then have "map_of (records @ [(gaikuKey L line, r)]) k = None"
        using Cons.prems(2) by (simp add: map_add_def)
      from Cons.IH [OF l this] ne show ?thesis by simp
    qed
  qed
qed


lemma addToCoords_apply:
  "addToCoords coords k lng lat k' =
     (if k' = k then Some ((case coords k of None \<Rightarrow> [] | Some a \<Rightarrow> a) @ [(lng, lat)])
      else coords k')"
  by (simp add: addToCoords_def split: option.splits)

lemma gaikuSamples_coords:
  "fst (gaikuSamples L coords gr data) k =
     (let new = map (\<lambda>l. (g_lng l, g_lat l)) (filter (\<lambda>l. gaikuKey L l = k) data)
      in if new = [] then coords k
         else Some ((case coords k of None \<Rightarrow> [] | Some a \<Rightarrow> a) @ new))"
proof (induction data arbitrary: coords gr)
  case Nil
  then show ?case by simp
next
  case (Cons line rest)
  show ?case
    by (simp add: Cons.IH addToCoords_apply Let_def split: option.splits)
qed

section \<open>The postal backfill\<close>
















section \<open>Records built by the two passes\<close>

lemma oazaRecord_None:
  assumes "lookupKana L (o_pref line) (renamedCity (o_pref line) (o_city line))
             (removeUnnecessarySpace (o_town line)) ks = None"
  shows "oazaRecord L prefCode ks rs line = Inl TypeError"
  using assms by (simp add: oazaRecord_def propertyOf_def)

lemma oazaRecord_Some:
  assumes "lookupKana L (o_pref line) (renamedCity (o_pref line) (o_city line))
             (removeUnnecessarySpace (o_town line)) ks = Some k"
  shows "oazaRecord L prefCode ks rs line =
    Inr [Str prefCode, Str (k_postal k), Str (o_pref line), Str (han2zen (k_prefKana k)),
         Str (case lookupRome L (o_pref line) (renamedCity (o_pref line) (o_city line))
                     (removeUnnecessarySpace (o_town line)) rs of
                None \<Rightarrow> [] | Some r \<Rightarrow> r_prefRome r),
         Str (o_cityCode line), Str (renamedCity (o_pref line) (o_city line)),
         Str (han2zen (k_cityKana k)),
         Str (case lookupRome L (o_pref line) (renamedCity (o_pref line) (o_city line))
                     (removeUnnecessarySpace (o_town line)) rs of
                None \<Rightarrow> [] | Some r \<Rightarrow> r_cityRome r),
         Str (removeUnnecessarySpace (o_town line)),
         Str (han2zen (removeStringEnclosedInParentheses (k_townKana k))
              @ chomeSuffix (kanji2number L) (o_town line)),
         Str (case lookupRome L (o_pref line) (renamedCity (o_pref line) (o_city line))
                     (removeUnnecessarySpace (o_town line)) rs of
                None \<Rightarrow> []
              | Some r \<Rightarrow> removeStringEnclosedInParentheses (r_townRome r)
                          @ chomeSuffix (kanji2number L) (o_town line)),
         Str [], Num (o_lat line), Num (o_lng line)]"
  using assms
  by (simp add: oazaRecord_def propertyOf_def propertyOrEmpty_def split: option.splits)

lemma gaikuRecord_None:
  assumes "lookupKana L (g_pref line) (renamedCity (g_pref line) (g_city line))
             (removeUnnecessarySpace (g_town line)) ks = None"
  shows "gaikuRecord L prefCode ks rs cs line = Inl TypeError"
proof (cases "getCenter cs (gaikuKey L line)")
  case (Inl e)
  then show ?thesis by (cases e) (simp add: gaikuRecord_def)
next
  case (Inr c)
  then show ?thesis using assms by (simp add: gaikuRecord_def propertyOf_def)
qed

lemma gaikuRecord_Some:
  assumes "gaikuRecord L prefCode ks rs cs line = Inr rec"
  shows "\<exists>k c. lookupKana L (g_pref line) (renamedCity (g_pref line) (g_city line))
             (removeUnnecessarySpace (g_town line)) ks = Some k
    \<and> getCenter cs (gaikuKey L line) = Inr c
    \<and> rec =
       [Str prefCode, Str (k_postal k), Str (g_pref line), Str (han2zen (k_prefKana k)),
         Str (case lookupRome L (g_pref line) (renamedCity (g_pref line) (g_city line))
                     (removeUnnecessarySpace (g_town line)) rs of
                None \<Rightarrow> [] | Some r \<Rightarrow> r_prefRome r),
         Str (k_lgcode k), Str (renamedCity (g_pref line) (g_city line)),
         Str (han2zen (k_cityKana k)),
         Str (case lookupRome L (g_pref line) (renamedCity (g_pref line) (g_city line))
                     (removeUnnecessarySpace (g_town line)) rs of
                None \<Rightarrow> [] | Some r \<Rightarrow> r_cityRome r),
         Str (removeUnnecessarySpace (g_town line)),
         Str (han2zen (removeStringEnclosedInParentheses (k_townKana k))
              @ chomeSuffix (kanji2number L) (removeUnnecessarySpace (g_town line))),
         Str (case lookupRome L (g_pref line) (renamedCity (g_pref line) (g_city line))
                     (removeUnnecessarySpace (g_town line)) rs of
                None \<Rightarrow> []
              | Some r \<Rightarrow> removeStringEnclosedInParentheses (r_townRome r)
                          @ chomeSuffix (kanji2number L) (removeUnnecessarySpace (g_town line))),
         Str (koazaOf line), Num (snd c), Num (fst c)]"
proof (cases "lookupKana L (g_pref line) (renamedCity (g_pref line) (g_city line))
             (removeUnnecessarySpace (g_town line)) ks")
  case None
  from gaikuRecord_None [OF this] assms show ?thesis by simp
next
  case (Some k)
  show ?thesis
  proof (cases "getCenter cs (gaikuKey L line)")
    case (Inl e)
    with assms show ?thesis by (simp add: gaikuRecord_def)
  next
    case (Inr c)
    with assms Some show ?thesis
      by (auto simp: gaikuRecord_def propertyOf_def propertyOrEmpty_def Let_def split: option.splits)
  qed
qed

lemma exOaza_record_plain:
  "oazaRecord specLib (ascii ''01'') [exKana] [exRome] exOaza = Inr (exRecord (ascii ''0640941''))"
  using exOaza_record [of "ascii ''0640941''"] by (simp add: exKana_def)

text \<open>
  Claim C10. A record built by the district-level pass has the municipal-code column of
  its row as city code. A record built by the block-level pass has the national
  local-government code of the kana dictionary entry that the lookup returned; when the
  lookup returns nothing, the block-level pass builds no record and throws.
\<close>

theorem city_code_source:
  "(oazaRecord L prefCode ks rs line = Inr rec \<longrightarrow>
      elemAt rec col_cityCode = Str (o_cityCode line))
   \<and> (gaikuRecord L prefCode ks rs cs gline = Inr grec \<longrightarrow>
        (\<exists>k. lookupKana L (g_pref gline) (renamedCity (g_pref gline) (g_city gline))
                (removeUnnecessarySpace (g_town gline)) ks = Some k
             \<and> elemAt grec col_cityCode = Str (k_lgcode k)))
   \<and> (lookupKana L (g_pref gline) (renamedCity (g_pref gline) (g_city gline))
          (removeUnnecessarySpace (g_town gline)) ks = None \<longrightarrow>
        gaikuRecord L prefCode ks rs cs gline = Inl TypeError)"
proof -
  have 1: "elemAt rec col_cityCode = Str (o_cityCode line)"
    if h: "oazaRecord L prefCode ks rs line = Inr rec"
  proof (cases "lookupKana L (o_pref line) (renamedCity (o_pref line) (o_city line))
             (removeUnnecessarySpace (o_town line)) ks")
    case None
    from oazaRecord_None [OF this] h show ?thesis by simp
  next
    case (Some k)
    from oazaRecord_Some [OF this, of prefCode rs] h show ?thesis
      by (auto simp: elemAt_def col_cityCode_def)
  qed
  have 2: "\<exists>k. lookupKana L (g_pref gline) (renamedCity (g_pref gline) (g_city gline))
                (removeUnnecessarySpace (g_town gline)) ks = Some k
             \<and> elemAt grec col_cityCode = Str (k_lgcode k)"
    if h: "gaikuRecord L prefCode ks rs cs gline = Inr grec"
    using gaikuRecord_Some [OF h] by (auto simp: elemAt_def col_cityCode_def)
  from 1 2 gaikuRecord_None [of L gline ks prefCode rs cs] show ?thesis by blast
qed

theorem city_code_source_witness:
  "oazaRecord specLib (ascii ''01'') [exKana] [exRome] exOaza = Inr (exRecord (ascii ''0640941''))
   \<and> elemAt (exRecord (ascii ''0640941'')) col_cityCode = Str (o_cityCode exOaza)
   \<and> gaikuRecord specLib (ascii ''01'') [exKana] [exRome]
        (Map.empty((hokkaido, sapporo, asahi2, []) \<mapsto> [(141, 43)])) (exGaiku 141)
       = Inr (exGaikuRecord 141)
   \<and> elemAt (exGaikuRecord 141) col_cityCode = Str (k_lgcode exKana)
   \<and> gaikuRecord specLib (ascii ''01'') [] [exRome]
        (Map.empty((hokkaido, sapporo, asahi2, []) \<mapsto> [(141, 43)])) (exGaiku 141)
       = Inl TypeError"
proof -
  let ?cs = "Map.empty((hokkaido, sapporo, asahi2, [] :: jstring) \<mapsto> [(141 :: real, 43 :: real)])"
  have o: "oazaRecord specLib (ascii ''01'') [exKana] [exRome] exOaza = Inr (exRecord (ascii ''0640941''))"
    by (rule exOaza_record_plain)
  have g: "gaikuRecord specLib (ascii ''01'') [exKana] [exRome] ?cs (exGaiku 141)
       = Inr (exGaikuRecord 141)"
    by (rule exGaiku_record, rule getCenter_ex(2)) simp
  have n: "lookupKana specLib (g_pref (exGaiku 141))
             (renamedCity (g_pref (exGaiku 141)) (g_city (exGaiku 141)))
             (removeUnnecessarySpace (g_town (exGaiku 141))) [] = None"
    by (simp add: specLib_def specLookup_def)
  have k: "lookupKana specLib (g_pref (exGaiku 141))
             (renamedCity (g_pref (exGaiku 141)) (g_city (exGaiku 141)))
             (removeUnnecessarySpace (g_town (exGaiku 141))) [exKana] = Some exKana"
    by (simp add: exGaiku_def renamedCity_sapporo normalised_asahi2 lookupKana_asahi2)
  have c1: "elemAt (exRecord (ascii ''0640941'')) col_cityCode = Str (o_cityCode exOaza)"
    by (rule mp [OF city_code_source [THEN conjunct1]]) (rule o)
  from mp [OF city_code_source [THEN conjunct2, THEN conjunct1], OF g] k
  have c2: "elemAt (exGaikuRecord 141) col_cityCode = Str (k_lgcode exKana)" by simp
  have c3: "gaikuRecord specLib (ascii ''01'') [] [exRome] ?cs (exGaiku 141) = Inl TypeError"
    by (rule mp [OF city_code_source [THEN conjunct2, THEN conjunct2]]) (rule n)
  show ?thesis by (intro conjI o c1 g c2 c3)
qed

text \<open>
  Claim C1 at a failing input: with a kana dictionary that has no entry for the row, the
  unguarded read of the postal code throws a TypeError in both passes, so no record is
  built and the processing of the prefecture ends with the exception.
\<close>

theorem missing_kana_entry_aborts:
  "getOazaAddressItems specLib (ascii ''01'') [] [exRome] Map.empty [exOaza] = Inl TypeError
   \<and> getGaikuAddressItems specLib (ascii ''01'') [] [exRome] [] [exGaiku 141] Map.empty
       = Inl TypeError
   \<and> getAddressItems specLib (ascii ''01'') [] [exRome] Map.empty [exOaza] [] Map.empty
       = Inl TypeError"
proof -
  have o: "oazaRecord specLib (ascii ''01'') [] rs exOaza = Inl TypeError" for rs
    by (rule oazaRecord_None) (simp add: specLib_def specLookup_def)
  have g: "gaikuRecord specLib (ascii ''01'') [] rs cs (exGaiku 141) = Inl TypeError" for rs cs
    by (rule gaikuRecord_None) (simp add: specLib_def specLookup_def)
  show ?thesis
    by (simp add: getOazaAddressItems_def getGaikuAddressItems_def getAddressItems_def o g
        split: prod.splits)
qed

section \<open>The chome number\<close>



































section \<open>One record for each key\<close>

lemma getAddressItems_Inr:
  assumes "getAddressItems L prefCode kana rome patchData oaza gaiku cs = Inr (towns, gaikuItems, cs')"
  shows "\<exists>oazaData.
      oazaLoop L prefCode (filter (\<lambda>item. Some (k_pref item) = prefNameOf prefCode) kana)
        (filter (\<lambda>item. Some (r_pref item) = prefNameOf prefCode) rome)
        (case patchData prefCode of Some records \<Rightarrow> records | None \<Rightarrow> []) oaza = Inr oazaData
    \<and> gaikuLoop L prefCode (filter (\<lambda>item. Some (k_pref item) = prefNameOf prefCode) kana)
        (filter (\<lambda>item. Some (r_pref item) = prefNameOf prefCode) rome) cs' oazaData gaiku
        = Inr towns
    \<and> cs' = fst (gaikuSamples L cs [] gaiku)"
  using assms
  by (auto simp: getAddressItems_def getOazaAddressItems_def getGaikuAddressItems_def Let_def
      split: sum.splits prod.splits)

text \<open>
  Claim C3. When the two passes of a prefecture end without an exception, the map
  \<open>towns\<close> has each key once. A record of the patch data is still under its key,
  unchanged. A key that is not in the patch data and occurs in the district-level file
  has the record of the first row with that key, later rows with the key being skipped;
  a key that occurs in neither has the record of the first block-level row with that
  key; no other key has a record. The patch map, like every object, has each key once.
\<close>

theorem first_row_wins:
  assumes "getAddressItems L prefCode kana rome patchData oaza gaiku cs = Inr (towns, gaikuItems, cs')"
    and "distinct (map fst (case patchData prefCode of Some records \<Rightarrow> records | None \<Rightarrow> []))"
  shows
    "let patch = (case patchData prefCode of Some records \<Rightarrow> records | None \<Rightarrow> []);
         ks = filter (\<lambda>item. Some (k_pref item) = prefNameOf prefCode) kana;
         rs = filter (\<lambda>item. Some (r_pref item) = prefNameOf prefCode) rome
     in distinct (map fst towns)
        \<and> (\<forall>k v. map_of patch k = Some v \<longrightarrow> map_of towns k = Some v)
        \<and> (\<forall>k l. map_of patch k = None \<and> find (\<lambda>l. oazaKey L l = k) oaza = Some l \<longrightarrow>
              (\<exists>r. oazaRecord L prefCode ks rs l = Inr r \<and> map_of towns k = Some r))
        \<and> (\<forall>k l. map_of patch k = None \<and> find (\<lambda>l. oazaKey L l = k) oaza = None
                  \<and> find (\<lambda>l. gaikuKey L l = k) gaiku = Some l \<longrightarrow>
              (\<exists>r. gaikuRecord L prefCode ks rs cs' l = Inr r \<and> map_of towns k = Some r))
        \<and> (\<forall>k. map_of patch k = None \<and> find (\<lambda>l. oazaKey L l = k) oaza = None
                \<and> find (\<lambda>l. gaikuKey L l = k) gaiku = None \<longrightarrow>
              map_of towns k = None)"
proof -
  define patch where "patch = (case patchData prefCode of Some records \<Rightarrow> records | None \<Rightarrow> [])"
  define ks where "ks = filter (\<lambda>item. Some (k_pref item) = prefNameOf prefCode) kana"
  define rs where "rs = filter (\<lambda>item. Some (r_pref item) = prefNameOf prefCode) rome"
  from getAddressItems_Inr [OF assms(1)] obtain oazaData where
    o: "oazaLoop L prefCode ks rs patch oaza = Inr oazaData"
    and g: "gaikuLoop L prefCode ks rs cs' oazaData gaiku = Inr towns"
    unfolding patch_def ks_def rs_def by blast
  from assms(2) have dp: "distinct (map fst patch)" by (simp add: patch_def)
  have 1: "distinct (map fst towns)"
    using gaikuLoop_distinct [OF g oazaLoop_distinct [OF o dp]] .
  have 2: "map_of towns k = Some v" if "map_of patch k = Some v" for k v
    using gaikuLoop_keeps [OF g oazaLoop_keeps [OF o that]] .
  have 3: "\<exists>r. oazaRecord L prefCode ks rs l = Inr r \<and> map_of towns k = Some r"
    if "map_of patch k = None" "find (\<lambda>l. oazaKey L l = k) oaza = Some l" for k l
  proof -
    from oazaLoop_first [OF o that(1)] that(2) obtain r where
      r: "oazaRecord L prefCode ks rs l = Inr r" "map_of oazaData k = Some r"
      by auto
    from gaikuLoop_keeps [OF g r(2)] r(1) show ?thesis by blast
  qed
  have 4: "\<exists>r. gaikuRecord L prefCode ks rs cs' l = Inr r \<and> map_of towns k = Some r"
    if "map_of patch k = None" "find (\<lambda>l. oazaKey L l = k) oaza = None"
      "find (\<lambda>l. gaikuKey L l = k) gaiku = Some l" for k l
  proof -
    from oazaLoop_first [OF o that(1)] that(2) have "map_of oazaData k = None" by simp
    from gaikuLoop_first [OF g this] that(3) show ?thesis by auto
  qed
  have 5: "map_of towns k = None"
    if "map_of patch k = None" "find (\<lambda>l. oazaKey L l = k) oaza = None"
      "find (\<lambda>l. gaikuKey L l = k) gaiku = None" for k
  proof -
    from oazaLoop_first [OF o that(1)] that(2) have "map_of oazaData k = None" by simp
    from gaikuLoop_first [OF g this] that(3) show ?thesis by simp
  qed
  from 1 2 3 4 5 show ?thesis
    unfolding Let_def patch_def [symmetric] ks_def [symmetric] rs_def [symmetric] by blast
qed

lemma toPrefCode_ex: "toPrefCode 1 = ascii ''01''" "toPrefCode 2 = ascii ''02''"
  by (simp_all add: toPrefCode_def showNat.simps ascii_def)

lemma prefNameOf_01: "prefNameOf (ascii ''01'') = Some hokkaido"
  by (simp add: prefNameOf_def parseInt10_def isDigit_def ascii_def prefNames_def hokkaido_def)

lemma filter_ex:
  "filter (\<lambda>item. Some (k_pref item) = Some hokkaido) [exKana] = [exKana]"
  "filter (\<lambda>item. Some (r_pref item) = Some hokkaido) [exRome] = [exRome]"
  by (simp_all add: exKana_def exRome_def)

lemma oazaLoop_ex:
  "oazaLoop specLib (ascii ''01'') [exKana] [exRome] [] [exOaza, exOaza]
     = Inr [((hokkaido, sapporo, asahi1, []), exRecord (ascii ''0640941''))]"
  by (simp add: oazaKey_exOaza exOaza_record_plain)

lemma gaikuSamples_ex:
  "gaikuSamples specLib Map.empty [] [exGaiku 141, exGaiku 142]
     = (Map.empty((hokkaido, sapporo, asahi2, []) \<mapsto> [(141, 43), (142, 43)]),
        [[Str hokkaido, Str sapporo, Str asahi2, Str (ascii ''5''), Num 141, Num 43],
         [Str hokkaido, Str sapporo, Str asahi2, Str (ascii ''5''), Num 142, Num 43]])"
  by (simp add: gaikuKey_exGaiku addToCoords_def)
     (simp add: exGaiku_def renamedCity_sapporo)

lemma getAddressItems_ex:
  "getAddressItems specLib (ascii ''01'') [exKana] [exRome] Map.empty [exOaza, exOaza]
     [exGaiku 141, exGaiku 142] Map.empty
   = Inr ([((hokkaido, sapporo, asahi1, []), exRecord (ascii ''0640941'')),
           ((hokkaido, sapporo, asahi2, []), exGaikuRecord 141)],
          [[Str hokkaido, Str sapporo, Str asahi2, Str (ascii ''5''), Num 141, Num 43],
           [Str hokkaido, Str sapporo, Str asahi2, Str (ascii ''5''), Num 142, Num 43]],
          Map.empty((hokkaido, sapporo, asahi2, []) \<mapsto> [(141, 43), (142, 43)]))"
  unfolding getAddressItems_def Let_def prefNameOf_01 filter_ex
  by (simp add: getOazaAddressItems_def oazaLoop_ex
      getGaikuAddressItems_def gaikuSamples_ex gaikuLoop_ex_new
      del: oazaLoop.simps gaikuLoop.simps gaikuSamples.simps)

theorem first_row_wins_witness:
  "getAddressItems specLib (ascii ''01'') [exKana] [exRome] Map.empty [exOaza, exOaza]
     [exGaiku 141, exGaiku 142] Map.empty
   = Inr ([((hokkaido, sapporo, asahi1, []), exRecord (ascii ''0640941'')),
           ((hokkaido, sapporo, asahi2, []), exGaikuRecord 141)],
          [[Str hokkaido, Str sapporo, Str asahi2, Str (ascii ''5''), Num 141, Num 43],
           [Str hokkaido, Str sapporo, Str asahi2, Str (ascii ''5''), Num 142, Num 43]],
          Map.empty((hokkaido, sapporo, asahi2, []) \<mapsto> [(141, 43), (142, 43)]))
   \<and> distinct (map fst [((hokkaido, sapporo, asahi1, [] :: jstring), exRecord (ascii ''0640941'')),
                          ((hokkaido, sapporo, asahi2, []), exGaikuRecord 141)])
   \<and> find (\<lambda>l. oazaKey specLib l = (hokkaido, sapporo, asahi1, [])) [exOaza, exOaza] = Some exOaza
   \<and> (\<exists>r. oazaRecord specLib (ascii ''01'') [exKana] [exRome] exOaza = Inr r
          \<and> map_of [((hokkaido, sapporo, asahi1, [] :: jstring), exRecord (ascii ''0640941'')),
                     ((hokkaido, sapporo, asahi2, []), exGaikuRecord 141)]
               (hokkaido, sapporo, asahi1, []) = Some r)"
proof -
  let ?k1 = "(hokkaido, sapporo, asahi1, [] :: jstring)"
  let ?k2 = "(hokkaido, sapporo, asahi2, [] :: jstring)"
  let ?towns = "[(?k1, exRecord (ascii ''0640941'')), (?k2, exGaikuRecord 141)]"
  have d: "distinct (map fst (case (Map.empty :: jstring \<rightharpoonup> (jstring \<times> jstring \<times> jstring \<times> jstring) records)
                                     (ascii ''01'') of Some records \<Rightarrow> records | None \<Rightarrow> []))"
    by simp
  have f: "find (\<lambda>l. oazaKey specLib l = ?k1) [exOaza, exOaza] = Some exOaza"
    by (simp add: oazaKey_exOaza)
  note inst = first_row_wins [OF getAddressItems_ex d, unfolded Let_def prefNameOf_01 filter_ex]
  from inst have 1: "distinct (map fst ?towns)" by (rule conjunct1)
  have 3: "\<exists>r. oazaRecord specLib (ascii ''01'') [exKana] [exRome] exOaza = Inr r
          \<and> map_of ?towns ?k1 = Some r"
    by (rule inst [THEN conjunct2, THEN conjunct2, THEN conjunct1, rule_format, of ?k1 exOaza])
       (simp add: f del: find.simps)
  show ?thesis by (intro conjI getAddressItems_ex 1 f 3)
qed

section \<open>State across prefectures\<close>

lemma prefStep_Inr:
  assumes "prefStep L kana rome files st n = Inr (st', towns, gaikuItems)"
  shows "\<exists>cs'. getAddressItems L (toPrefCode n) kana rome (st_patchData st)
                 (fst (files (toPrefCode n))) (snd (files (toPrefCode n))) (st_coords st)
               = Inr (towns, gaikuItems, cs')
             \<and> st_coords st' = cs'
             \<and> st_patchData st' =
                 (case st_patchData st (toPrefCode n) of
                    None \<Rightarrow> st_patchData st
                  | Some old \<Rightarrow> (st_patchData st)(toPrefCode n \<mapsto> towns))"
  using assms by (auto simp: prefStep_def Let_def split: sum.splits prod.splits)

text \<open>
  Claim C8, as the code has it. The filtered dictionaries and the map of records belong
  to one prefecture: a pass starts from the patch map of its own prefecture code, or from
  an empty map, a record of its result comes from that map or from a row of its own two
  files, and the patch data of every other prefecture code is left as it was. The
  coordinate samples are different: they are kept in the one object \<open>coords\<close> of the
  script, which is never cleared. A pass appends the samples of its block-level rows to
  the arrays that are already there, so every sample of an earlier prefecture is still in
  the store during and after every later pass.
\<close>

theorem samples_outlive_prefecture:
  assumes "prefStep L kana rome files st n = Inr (st', towns, gaikuItems)"
  shows "(\<forall>k. st_coords st' k =
            (let new = map (\<lambda>l. (g_lng l, g_lat l))
                         (filter (\<lambda>l. gaikuKey L l = k) (snd (files (toPrefCode n))))
             in if new = [] then st_coords st k
                else Some ((case st_coords st k of None \<Rightarrow> [] | Some a \<Rightarrow> a) @ new)))
    \<and> (\<forall>k arr. st_coords st k = Some arr \<longrightarrow> (\<exists>new. st_coords st' k = Some (arr @ new)))
    \<and> (\<forall>c. c \<noteq> toPrefCode n \<longrightarrow> st_patchData st' c = st_patchData st c)
    \<and> (\<forall>k \<in> fst ` set towns.
          k \<in> fst ` set (case st_patchData st (toPrefCode n) of Some r \<Rightarrow> r | None \<Rightarrow> [])
          \<or> k \<in> oazaKey L ` set (fst (files (toPrefCode n)))
          \<or> k \<in> gaikuKey L ` set (snd (files (toPrefCode n))))"
proof -
  let ?pc = "toPrefCode n"
  from prefStep_Inr [OF assms] obtain cs' where
    a: "getAddressItems L ?pc kana rome (st_patchData st) (fst (files ?pc)) (snd (files ?pc))
          (st_coords st) = Inr (towns, gaikuItems, cs')"
    and c: "st_coords st' = cs'"
    and p: "st_patchData st' =
                 (case st_patchData st ?pc of
                    None \<Rightarrow> st_patchData st
                  | Some old \<Rightarrow> (st_patchData st)(?pc \<mapsto> towns))"
    by blast
  from getAddressItems_Inr [OF a] obtain oazaData ks rs where
    o: "oazaLoop L ?pc ks rs (case st_patchData st ?pc of Some r \<Rightarrow> r | None \<Rightarrow> [])
          (fst (files ?pc)) = Inr oazaData"
    and g: "gaikuLoop L ?pc ks rs cs' oazaData (snd (files ?pc)) = Inr towns"
    and s: "cs' = fst (gaikuSamples L (st_coords st) [] (snd (files ?pc)))"
    by blast
  have 1: "\<forall>k. st_coords st' k =
            (let new = map (\<lambda>l. (g_lng l, g_lat l))
                         (filter (\<lambda>l. gaikuKey L l = k) (snd (files ?pc)))
             in if new = [] then st_coords st k
                else Some ((case st_coords st k of None \<Rightarrow> [] | Some a \<Rightarrow> a) @ new))"
    unfolding c s by (simp add: gaikuSamples_coords)
  have 2: "\<exists>new. st_coords st' k = Some (arr @ new)" if "st_coords st k = Some arr" for k arr
  proof -
    from 1 that have "st_coords st' k = Some (arr @ map (\<lambda>l. (g_lng l, g_lat l))
                         (filter (\<lambda>l. gaikuKey L l = k) (snd (files ?pc))))"
      by (simp add: Let_def)
    then show ?thesis by blast
  qed
  have 3: "\<forall>c. c \<noteq> ?pc \<longrightarrow> st_patchData st' c = st_patchData st c"
    unfolding p by (simp split: option.splits)
  have 4: "k \<in> fst ` set (case st_patchData st ?pc of Some r \<Rightarrow> r | None \<Rightarrow> [])
          \<or> k \<in> oazaKey L ` set (fst (files ?pc))
          \<or> k \<in> gaikuKey L ` set (snd (files ?pc))" if "k \<in> fst ` set towns" for k
  proof -
    from oazaLoop_extends [OF o] obtain new1 where
      n1: "oazaData = (case st_patchData st ?pc of Some r \<Rightarrow> r | None \<Rightarrow> []) @ new1"
          "fst ` set new1 \<subseteq> oazaKey L ` set (fst (files ?pc))" by blast
    from gaikuLoop_extends [OF g] obtain new2 where
      n2: "towns = oazaData @ new2" "fst ` set new2 \<subseteq> gaikuKey L ` set (snd (files ?pc))"
      by blast
    from that n1 n2 show ?thesis by auto
  qed
  from 1 2 3 4 show ?thesis by blast
qed

lemma getCenter_ex4:
  "cs k = Some [(141, 43), (142, 43), (141, 43), (142, 43)] \<Longrightarrow> getCenter cs k = Inr (141, 43)"
  by (simp add: getCenter_def turfCenter_def euclid2_def power2_eq_square)

lemma gaikuLoop_ex_center:
  assumes "getCenter cs (hokkaido, sapporo, asahi2, []) = Inr (141, 43)"
  shows "gaikuLoop specLib (ascii ''01'') [exKana] [exRome] cs
           [((hokkaido, sapporo, asahi1, []), r)] [exGaiku 141, exGaiku 142]
         = Inr [((hokkaido, sapporo, asahi1, []), r),
                ((hokkaido, sapporo, asahi2, []), exGaikuRecord 141)]"
  using keys_differ by (simp add: gaikuKey_exGaiku exGaiku_record [OF assms])

lemma exFiles_ex:
  "exFiles (ascii ''01'') = ([exOaza, exOaza], [exGaiku 141, exGaiku 142])"
  "exFiles (ascii ''02'') = ([], [])"
  by (simp_all add: exFiles_def ascii_def)

lemma prefStep_first:
  "prefStep specLib [exKana] [exRome] exFiles exState 1 = Inr (exStateAfter01, exTowns, exPoints)"
  unfolding prefStep_def toPrefCode_ex Let_def exFiles_ex
  using getAddressItems_ex
  by (simp add: exState_def exStateAfter01_def exTowns_def exPoints_def)

lemma prefStep_second:
  "prefStep specLib [exKana] [exRome] exFiles exStateAfter01 2 = Inr (exStateAfter01, [], [])"
  unfolding prefStep_def toPrefCode_ex Let_def exFiles_ex
  by (simp add: getAddressItems_def getOazaAddressItems_def
      getGaikuAddressItems_def exStateAfter01_def Let_def)

lemma gaikuSamples_again:
  "gaikuSamples specLib (st_coords exStateAfter01) [] [exGaiku 141, exGaiku 142]
     = (Map.empty((hokkaido, sapporo, asahi2, []) \<mapsto> [(141, 43), (142, 43), (141, 43), (142, 43)]),
        exPoints)"
  by (simp add: gaikuKey_exGaiku addToCoords_def exStateAfter01_def exPoints_def)
     (simp add: exGaiku_def renamedCity_sapporo)

lemma prefStep_again:
  "prefStep specLib [exKana] [exRome] exFiles exStateAfter01 1
     = Inr (\<lparr>st_coords = Map.empty((hokkaido, sapporo, asahi2, [])
                \<mapsto> [(141, 43), (142, 43), (141, 43), (142, 43)]),
             st_patchData = Map.empty\<rparr>, exTowns, exPoints)"
proof -
  have p: "st_patchData exStateAfter01 = Map.empty" by (simp add: exStateAfter01_def)
  have g: "gaikuLoop specLib (ascii ''01'') [exKana] [exRome]
            (Map.empty((hokkaido, sapporo, asahi2, []) \<mapsto> [(141, 43), (142, 43), (141, 43), (142, 43)]))
            [((hokkaido, sapporo, asahi1, []), exRecord (ascii ''0640941''))]
            [exGaiku 141, exGaiku 142] = Inr exTowns"
    unfolding exTowns_def by (rule gaikuLoop_ex_center, rule getCenter_ex4) simp
  have "getAddressItems specLib (ascii ''01'') [exKana] [exRome] Map.empty [exOaza, exOaza]
     [exGaiku 141, exGaiku 142] (st_coords exStateAfter01)
     = Inr (exTowns, exPoints,
            Map.empty((hokkaido, sapporo, asahi2, []) \<mapsto> [(141, 43), (142, 43), (141, 43), (142, 43)]))"
    unfolding getAddressItems_def Let_def prefNameOf_01 filter_ex
    by (simp add: getOazaAddressItems_def oazaLoop_ex getGaikuAddressItems_def gaikuSamples_again g
        del: oazaLoop.simps gaikuLoop.simps gaikuSamples.simps)
  then show ?thesis
    unfolding prefStep_def toPrefCode_ex Let_def exFiles_ex p by simp
qed

theorem samples_outlive_prefecture_witness:
  "prefStep specLib [exKana] [exRome] exFiles exStateAfter01 1
     = Inr (\<lparr>st_coords = Map.empty((hokkaido, sapporo, asahi2, [])
                \<mapsto> [(141, 43), (142, 43), (141, 43), (142, 43)]),
             st_patchData = Map.empty\<rparr>, exTowns, exPoints)
   \<and> st_coords exStateAfter01 (hokkaido, sapporo, asahi2, []) = Some [(141, 43), (142, 43)]
   \<and> (\<exists>new. (Map.empty((hokkaido, sapporo, asahi2, [] :: jstring)
                \<mapsto> [(141, 43), (142, 43), (141, 43), (142 :: real, 43 :: real)]))
               (hokkaido, sapporo, asahi2, [])
             = Some ([(141, 43), (142, 43)] @ new))
   \<and> (hokkaido, sapporo, asahi2, []) \<in> fst ` set exTowns
   \<and> (hokkaido, sapporo, asahi2, []) \<in> gaikuKey specLib ` set (snd (exFiles (toPrefCode 1)))"
proof -
  let ?k2 = "(hokkaido, sapporo, asahi2, [] :: jstring)"
  let ?st' = "\<lparr>st_coords = Map.empty(?k2 \<mapsto> [(141, 43), (142, 43), (141, 43), (142 :: real, 43 :: real)]),
             st_patchData = (Map.empty :: jstring \<rightharpoonup> (jstring \<times> jstring \<times> jstring \<times> jstring) records)\<rparr>"
  note inst = samples_outlive_prefecture [OF prefStep_again]
  have c: "st_coords exStateAfter01 ?k2 = Some [(141, 43), (142, 43)]"
    by (simp add: exStateAfter01_def)
  from inst [THEN conjunct2, THEN conjunct1, rule_format, OF c]
  have 2: "\<exists>new. (Map.empty(?k2 \<mapsto> [(141, 43), (142, 43), (141, 43), (142 :: real, 43 :: real)])) ?k2
             = Some ([(141, 43), (142, 43)] @ new)"
    by simp
  have m: "?k2 \<in> fst ` set exTowns" by (simp add: exTowns_def)
  from inst [THEN conjunct2, THEN conjunct2, THEN conjunct2, rule_format, OF m]
  have 4: "?k2 \<in> gaikuKey specLib ` set (snd (exFiles (toPrefCode 1)))"
    unfolding toPrefCode_ex exFiles_ex
    using keys_differ
    by (simp add: oazaKey_exOaza gaikuKey_exGaiku exStateAfter01_def)
  show ?thesis by (intro conjI prefStep_again c 2 m 4)
qed

text \<open>
  Claim C8 as stated fails: after the pass of prefecture 01 the two samples of its
  block-level rows are in the store; the pass of prefecture 02 starts with them and
  leaves them there, and they are still in the store when the loop ends.
\<close>

theorem samples_outlive_prefecture_counterexample:
  "prefStep specLib [exKana] [exRome] exFiles exState 1 = Inr (exStateAfter01, exTowns, exPoints)
   \<and> prefStep specLib [exKana] [exRome] exFiles exStateAfter01 2 = Inr (exStateAfter01, [], [])
   \<and> st_coords exStateAfter01 (hokkaido, sapporo, asahi2, []) = Some [(141, 43), (142, 43)]
   \<and> prefLoop specLib [exKana] [exRome] exFiles exState [1, 2]
       = Inr (exStateAfter01, map snd exTowns, exPoints)"
proof -
  have "prefLoop specLib [exKana] [exRome] exFiles exStateAfter01 [2]
       = Inr (exStateAfter01, [], [])"
    by (simp add: prefStep_second)
  then have "prefLoop specLib [exKana] [exRome] exFiles exState [1, 2]
       = Inr (exStateAfter01, map snd exTowns, exPoints)"
    by (subst prefLoop.simps, subst prefStep_first) simp
  moreover have "st_coords exStateAfter01 (hokkaido, sapporo, asahi2, []) = Some [(141, 43), (142, 43)]"
    by (simp add: exStateAfter01_def)
  ultimately show ?thesis by (intro conjI prefStep_first prefStep_second)
qed

end
